theory Spec2Isabelle
  imports Main
begin

section \<open>The invocation session (engine/contexts/Invoker.py)\<close>

text \<open>
  The raw input of an invocation is whatever the user hands to \<^verbatim>\<open>generator.invoke\<close>:
  one text, a list of texts, or token ids directly (the comment in \<^verbatim>\<open>__enter__\<close> names the
  last case). \<^verbatim>\<open>Invoker.next\<close> itself builds a list of filler texts.
\<close>

datatype 'tok raw_input = Text string | Texts "string list" | TokenIds "'tok list list"

text \<open>
  The prepared inputs are a dictionary of which this code reads the entry
  \<^verbatim>\<open>"input_ids"\<close> only: one sequence of token ids for each example of the batch.
\<close>

record 'tok inputs =
  input_ids :: "'tok list list"

text \<open>
  The host model (\<^verbatim>\<open>generator.model\<close>) is not part of these sources. Its three operations
  used by the Invoker are parameters: \<^verbatim>\<open>prepare_inputs\<close>, \<^verbatim>\<open>run_meta\<close> (which changes the
  state \<open>'m\<close> of the meta model through the forward hooks) and \<^verbatim>\<open>tokenizer.decode\<close>.
\<close>

record ('tok, 'a, 'm) host_model =
  prepare_inputs :: "'tok raw_input \<Rightarrow> 'tok inputs"
  run_meta :: "'tok inputs \<Rightarrow> 'a \<Rightarrow> 'm \<Rightarrow> 'm"
  decode :: "'tok \<Rightarrow> string"

text \<open>
  The session object: \<^verbatim>\<open>self.generator\<close> in Invoker.py, \<^verbatim>\<open>self.tracer\<close> in module.py. The
  record holds the attributes that the two files read or write; \<open>graph\<close> is the
  reference to the session's Graph object in the store of graphs below.
\<close>

record session =
  generation_idx :: int
  batch_size :: int
  batch_start :: int
  prompts :: "string list"
  graph :: nat

text \<open>
  \<^verbatim>\<open>self.tokens\<close> and \<^verbatim>\<open>self.ids\<close> are \<^verbatim>\<open>None\<close> after \<^verbatim>\<open>__init__\<close>, a list with one entry for each
  example after \<^verbatim>\<open>__enter__\<close>, and the single entry itself when there is exactly one.
\<close>

datatype 'x unwrapped = Unset | Batch "'x list list" | Single "'x list"

record ('tok, 'a) invoker =
  inv_input :: "'tok raw_input"
  inv_args :: 'a
  tokens :: "string unwrapped"
  ids :: "'tok unwrapped"

definition Invoker_init :: "'tok raw_input \<Rightarrow> 'a \<Rightarrow> ('tok, 'a) invoker" where
  "Invoker_init inp as = \<lparr>inv_input = inp, inv_args = as, tokens = Unset, ids = Unset\<rparr>"

definition Invoker_enter ::
  "('tok, 'a, 'm) host_model \<Rightarrow> ('tok, 'a) invoker \<Rightarrow> session \<times> 'm
    \<Rightarrow> ('tok, 'a) invoker \<times> session \<times> 'm" where
  "Invoker_enter host self st =
    (let generator = (fst st)\<lparr>generation_idx := 0\<rparr>;
         inps = prepare_inputs host (inv_input self);
         model = run_meta host inps (inv_args self) (snd st);
         toks = map (map (decode host)) (input_ids inps);
         the_ids = input_ids inps;
         generator = generator\<lparr>batch_size := int (length the_ids)\<rparr>;
         generator = generator\<lparr>prompts := prompts generator @ map concat toks\<rparr>;
         self = (if length toks = 1
                 then self\<lparr>tokens := Single (hd toks), ids := Single (hd the_ids)\<rparr>
                 else self\<lparr>tokens := Batch toks, ids := Batch the_ids\<rparr>)
     in (self, generator, model))"

definition Invoker_next ::
  "('tok, 'a, 'm) host_model \<Rightarrow> ('tok, 'a) invoker \<Rightarrow> session \<times> 'm \<Rightarrow> session \<times> 'm" where
  "Invoker_next host self st =
    (let generator = (fst st)\<lparr>generation_idx := generation_idx (fst st) + 1\<rparr>;
         inps = prepare_inputs host (Texts (replicate (nat (batch_size generator)) ''_''));
         model = run_meta host inps (inv_args self) (snd st)
     in (generator, model))"

text \<open>
  What a user does inside one session: a sequence of Invoker scope entries and of
  \<^verbatim>\<open>next()\<close> calls, each on some Invoker of the session.
\<close>

datatype ('tok, 'a) event = Enter "('tok, 'a) invoker" | Next "('tok, 'a) invoker"

fun is_next :: "('tok, 'a) event \<Rightarrow> bool" where
  "is_next (Next _) = True"
| "is_next (Enter _) = False"

fun step :: "('tok, 'a, 'm) host_model \<Rightarrow> session \<times> 'm \<Rightarrow> ('tok, 'a) event \<Rightarrow> session \<times> 'm" where
  "step host st (Enter ik) = snd (Invoker_enter host ik st)"
| "step host st (Next ik) = Invoker_next host ik st"

definition run_session ::
  "('tok, 'a, 'm) host_model \<Rightarrow> session \<times> 'm \<Rightarrow> ('tok, 'a) event list \<Rightarrow> session \<times> 'm" where
  "run_session host st evs = foldl (step host) st evs"

text \<open>The number of examples an event adds to the batch: the input-id sequences of an entry.\<close>

fun example_count :: "('tok, 'a, 'm) host_model \<Rightarrow> ('tok, 'a) event \<Rightarrow> nat" where
  "example_count host (Enter ik) = length (input_ids (prepare_inputs host (inv_input ik)))"
| "example_count host (Next _) = 0"

text \<open>
  Modelled from the spec: the Generator class is not among the sources. The spec says that
  the generation-step index "resets to zero at session start"; the batch size and the
  prompt list are "accumulated", so they start empty.
\<close>

definition session_start :: "nat \<Rightarrow> session" where
  "session_start g = \<lparr>generation_idx = 0, batch_size = 0, batch_start = 0, prompts = [], graph = g\<rparr>"

text \<open>
  A small host for concrete runs: token ids given directly are taken as they are, every
  text becomes one sequence of one token, the meta run leaves the model state alone.
\<close>

definition demo_host :: "(nat, unit, unit) host_model" where
  "demo_host =
    \<lparr>prepare_inputs = (\<lambda>raw. case raw of
         TokenIds xs \<Rightarrow> \<lparr>input_ids = xs\<rparr>
       | Texts ts \<Rightarrow> \<lparr>input_ids = map (\<lambda>_. [0]) ts\<rparr>
       | Text t \<Rightarrow> \<lparr>input_ids = [[0]]\<rparr>),
     run_meta = (\<lambda>_ _ m. m),
     decode = (\<lambda>_. ''_'')\<rparr>"

section \<open>Python values, classes and the store (what src/nnsight/module.py works on)\<close>

datatype py_error = AttributeError | IndexError

text \<open>The two property objects that class \<^verbatim>\<open>Module\<close> defines: \<^verbatim>\<open>output\<close> and \<^verbatim>\<open>input\<close>.\<close>

datatype accessor = OutputAccessor | InputAccessor

text \<open>
  The Python values that this code handles. \<open>PyObj\<close> is any other object (a tensor, a
  submodule, a bound method), known by its identity; \<open>PyProxy g i\<close> is a Proxy of node
  \<open>i\<close> of graph \<open>g\<close>, and \<open>PyNode g i\<close> that node itself (\<^verbatim>\<open>proxy.node\<close>).
\<close>

datatype pyval =
    PyNone
  | PyBool bool
  | PyInt int
  | PyStr string
  | PyTuple "pyval list"
  | PyObj nat
  | PyProxy nat nat
  | PyNode nat nat
  | PyProperty accessor

record node =
  target :: string
  args :: "pyval list"
  node_value :: pyval

text \<open>
  A class object: its name, \<^verbatim>\<open>__bases__\<close>, \<^verbatim>\<open>__mro__\<close> and \<^verbatim>\<open>__dict__\<close>. Classes live in a
  table and are known by their index, so that \<^verbatim>\<open>setattr\<close> on one class is seen by
  all its instances and by no other class.
\<close>

record pyclass =
  cls_name :: string
  bases :: "nat list"
  mro :: "nat list"
  cls_dict :: "string \<rightharpoonup> pyval"

record world =
  classes :: "pyclass list"
  graphs :: "nat \<Rightarrow> node list"
  tracers :: "nat \<Rightarrow> session"
  warnings :: "string list"

text \<open>
  The forward hooks registered on a torch module: the closure \<^verbatim>\<open>hook\<close> that
  \<^verbatim>\<open>Module.wrap\<close> registers, or a hook of somebody else.
\<close>

datatype forward_hook = CompletionHook | ForeignHook nat

text \<open>
  A module object. \<open>cls\<close> is \<^verbatim>\<open>__class__\<close>, \<open>attrs\<close> the ordinary attributes found on the
  instance (its \<^verbatim>\<open>__dict__\<close> and the submodules, parameters and buffers that torch
  registers), \<open>forward_hooks\<close> the hooks in the order of registration. The other fields
  are the attributes that \<^verbatim>\<open>Module.__init__\<close> sets; \<open>output_proxy\<close>, \<open>input_proxy\<close> and
  \<open>traced_graph\<close> stand for \<^verbatim>\<open>_output\<close>, \<^verbatim>\<open>_input\<close> and \<^verbatim>\<open>_graph\<close>. A Proxy is the pair of
  its graph and the index of its node.
\<close>

record module_obj =
  cls :: nat
  attrs :: "string \<rightharpoonup> pyval"
  forward_hooks :: "forward_hook list"
  module_path :: string
  call_iter :: int
  fake_outputs :: "pyval list"
  fake_inputs :: "pyval list"
  output_proxy :: "(nat \<times> nat) option"
  input_proxy :: "(nat \<times> nat) option"
  traced_graph :: "nat option"
  tracer :: "nat option"

text \<open>
  The module tree of torch: a module and its submodules, in order of registration. torch
  visits a module that is registered in two places once; in the tree every module occurs
  once.
\<close>

datatype mtree = MNode (mstate: module_obj) (subs: "mtree list")

definition Module_init :: "module_obj \<Rightarrow> module_obj" where
  "Module_init self =
     self\<lparr>module_path := [], call_iter := 0, fake_outputs := [], fake_inputs := [],
          output_proxy := None, input_proxy := None, traced_graph := None, tracer := None\<rparr>"

subsection \<open>Classes\<close>

definition object_cls :: nat where "object_cls = 0"
definition torch_Module_cls :: nat where "torch_Module_cls = 1"
definition Module_cls :: nat where "Module_cls = 2"

text \<open>
  Class \<^verbatim>\<open>Module(torch.nn.Module)\<close> of module.py, as far as attribute lookup of the names
  \<^verbatim>\<open>output\<close> and \<^verbatim>\<open>input\<close> goes: its dictionary holds the two properties.
\<close>

definition Module_class :: pyclass where
  "Module_class =
     \<lparr>cls_name = ''Module'', bases = [torch_Module_cls],
      mro = [Module_cls, torch_Module_cls, object_cls],
      cls_dict = [''output'' \<mapsto> PyProperty OutputAccessor, ''input'' \<mapsto> PyProperty InputAccessor]\<rparr>"

fun lookup_mro :: "pyclass list \<Rightarrow> nat list \<Rightarrow> string \<Rightarrow> pyval option" where
  "lookup_mro C [] name = None"
| "lookup_mro C (c # cs) name =
     (if c < length C
      then (case cls_dict (C ! c) name of Some v \<Rightarrow> Some v | None \<Rightarrow> lookup_mro C cs name)
      else lookup_mro C cs name)"

definition class_attr :: "pyclass list \<Rightarrow> nat \<Rightarrow> string \<Rightarrow> pyval option" where
  "class_attr C c name = (if c < length C then lookup_mro C (mro (C ! c)) name else None)"

definition isinstance_Module :: "pyclass list \<Rightarrow> module_obj \<Rightarrow> bool" where
  "isinstance_Module C obj \<longleftrightarrow> cls obj < length C \<and> Module_cls \<in> set (mro (C ! cls obj))"

text \<open>
  \<^verbatim>\<open>type(name, bases, {})\<close>: a new class at the end of the table. Its resolution order is
  the class itself, then the orders of its bases one after the other, where of a class
  that occurs more than once the last occurrence stays (for one base, and for two bases
  that share only a common tail, this is the linearisation of Python).
\<close>

definition type_new :: "world \<Rightarrow> string \<Rightarrow> nat list \<Rightarrow> world \<times> nat" where
  "type_new w name bs =
     (let c = length (classes w);
          order = remdups (concat (map (\<lambda>b. if b < c then mro (classes w ! b) else []) bs))
      in (w\<lparr>classes := classes w @ [\<lparr>cls_name = name, bases = bs, mro = c # order,
                                        cls_dict = Map.empty\<rparr>]\<rparr>, c))"

definition getattr_cls :: "world \<Rightarrow> nat \<Rightarrow> string \<Rightarrow> py_error + pyval" where
  "getattr_cls w c name =
     (case class_attr (classes w) c name of None \<Rightarrow> Inl AttributeError | Some v \<Rightarrow> Inr v)"

definition setattr_cls :: "world \<Rightarrow> nat \<Rightarrow> string \<Rightarrow> pyval \<Rightarrow> world" where
  "setattr_cls w c name v =
     w\<lparr>classes := (classes w)[c := (classes w ! c)\<lparr>cls_dict := (cls_dict (classes w ! c))(name \<mapsto> v)\<rparr>]\<rparr>"

subsection \<open>Graph and indexing\<close>

text \<open>
  Modelled from the spec: \<^verbatim>\<open>Graph.add\<close> (tracing/Graph.py is not among the sources)
  "appends a node and returns a Proxy wrapping it; this is the only way nodes are
  created".
\<close>

definition graph_add :: "world \<Rightarrow> nat \<Rightarrow> node \<Rightarrow> world \<times> (nat \<times> nat)" where
  "graph_add w g n = (w\<lparr>graphs := (graphs w)(g := graphs w g @ [n])\<rparr>, (g, length (graphs w g)))"

text \<open>
  \<^verbatim>\<open>xs[i]\<close>: counted from the front when \<open>i\<close> is not negative and from the back when it
  is; \<^verbatim>\<open>IndexError\<close> outside the list.
\<close>

definition py_index :: "'x list \<Rightarrow> int \<Rightarrow> py_error + 'x" where
  "py_index xs i =
     (if 0 \<le> i
      then (if i < int (length xs) then Inr (xs ! nat i) else Inl IndexError)
      else (if - int (length xs) \<le> i then Inr (xs ! nat (int (length xs) + i))
            else Inl IndexError))"

text \<open>The placeholder that an accessor hands to \<^verbatim>\<open>Graph.add\<close>: the \<^verbatim>\<open>if/elif/else\<close> of both getters.\<close>

definition placeholder_for :: "pyval list \<Rightarrow> int \<Rightarrow> py_error + pyval" where
  "placeholder_for fakes iter =
     (if length fakes = 0 then Inr PyNone
      else if iter \<ge> int (length fakes) then py_index fakes (- 1)
      else py_index fakes iter)"

subsection \<open>The accessors \<^verbatim>\<open>output\<close> and \<^verbatim>\<open>input\<close>\<close>

definition output_getter ::
  "world \<Rightarrow> module_obj \<Rightarrow> py_error + ((nat \<times> nat) \<times> world \<times> module_obj)" where
  "output_getter w self =
     (case output_proxy self of
        Some p \<Rightarrow> Inr (p, w, self)
      | None \<Rightarrow>
          (case placeholder_for (fake_outputs self) (call_iter self) of
             Inl e \<Rightarrow> Inl e
           | Inr fake_output \<Rightarrow>
               (case tracer self of
                  None \<Rightarrow> Inl AttributeError
                | Some t \<Rightarrow>
                    (let r = graph_add w (graph (tracers w t))
                               \<lparr>target = ''argument'',
                                args = [PyStr (module_path self @ ''.output''),
                                        PyInt (batch_size (tracers w t)),
                                        PyInt (batch_start (tracers w t)),
                                        PyInt (call_iter self)],
                                node_value = fake_output\<rparr>
                     in Inr (snd r, fst r, self\<lparr>output_proxy := Some (snd r)\<rparr>)))))"

definition input_getter ::
  "world \<Rightarrow> module_obj \<Rightarrow> py_error + ((nat \<times> nat) \<times> world \<times> module_obj)" where
  "input_getter w self =
     (case input_proxy self of
        Some p \<Rightarrow> Inr (p, w, self)
      | None \<Rightarrow>
          (case placeholder_for (fake_inputs self) (call_iter self) of
             Inl e \<Rightarrow> Inl e
           | Inr fake_input \<Rightarrow>
               (case tracer self of
                  None \<Rightarrow> Inl AttributeError
                | Some t \<Rightarrow>
                    (let r = graph_add w (graph (tracers w t))
                               \<lparr>target = ''argument'',
                                args = [PyStr (module_path self @ ''.input''),
                                        PyInt (batch_size (tracers w t)),
                                        PyInt (batch_start (tracers w t)),
                                        PyInt (call_iter self)],
                                node_value = fake_input\<rparr>
                     in Inr (snd r, fst r, self\<lparr>input_proxy := Some (snd r)\<rparr>)))))"

text \<open>
  Reading \<^verbatim>\<open>obj.name\<close>: a property found on the class runs its getter; otherwise the
  instance's own attribute comes before a plain class attribute. An \<^verbatim>\<open>AttributeError\<close> that
  a getter raises is passed on: the second look that torch's \<^verbatim>\<open>__getattr__\<close> would take,
  among the registered parameters, buffers and submodules, is not part of the model.
\<close>

definition getattr_obj ::
  "world \<Rightarrow> module_obj \<Rightarrow> string \<Rightarrow> py_error + (pyval \<times> world \<times> module_obj)" where
  "getattr_obj w obj name =
     (let found = class_attr (classes w) (cls obj) name in
      if found = Some (PyProperty OutputAccessor) then
        (case output_getter w obj of
           Inl e \<Rightarrow> Inl e
         | Inr r \<Rightarrow> Inr (PyProxy (fst (fst r)) (snd (fst r)), snd r))
      else if found = Some (PyProperty InputAccessor) then
        (case input_getter w obj of
           Inl e \<Rightarrow> Inl e
         | Inr r \<Rightarrow> Inr (PyProxy (fst (fst r)) (snd (fst r)), snd r))
      else
        (case attrs obj name of
           Some u \<Rightarrow> Inr (u, w, obj)
         | None \<Rightarrow> (case found of Some v \<Rightarrow> Inr (v, w, obj) | None \<Rightarrow> Inl AttributeError)))"

text \<open>\<^verbatim>\<open>getattr(obj, name, None)\<close>: an AttributeError becomes \<^verbatim>\<open>None\<close>, any other error is raised.\<close>

definition getattr_default ::
  "world \<Rightarrow> module_obj \<Rightarrow> string \<Rightarrow> py_error + (pyval \<times> world \<times> module_obj)" where
  "getattr_default w obj name =
     (case getattr_obj w obj name of
        Inl AttributeError \<Rightarrow> Inr (PyNone, w, obj)
      | Inl IndexError \<Rightarrow> Inl IndexError
      | Inr r \<Rightarrow> Inr r)"




subsection \<open>\<^verbatim>\<open>reset_proxies\<close>, \<^verbatim>\<open>reset\<close>, \<^verbatim>\<open>clear\<close>, \<^verbatim>\<open>next\<close>\<close>

text \<open>
  Each method first works on the module itself and then, with \<^verbatim>\<open>propagate\<close>, calls
  itself with \<^verbatim>\<open>propagate=False\<close> on every instance of \<^verbatim>\<open>Module\<close> among \<^verbatim>\<open>self.modules()\<close>:
  the module itself and all its descendants. The functions named \<open>_own\<close> are the
  methods with \<^verbatim>\<open>propagate=False\<close>, which touch one module only.
\<close>

definition reset_proxies_own :: "module_obj \<Rightarrow> module_obj" where
  "reset_proxies_own self = self\<lparr>output_proxy := None, input_proxy := None\<rparr>"

definition reset_own :: "module_obj \<Rightarrow> module_obj" where
  "reset_own self = (reset_proxies_own self)\<lparr>call_iter := 0\<rparr>"

definition clear_own :: "module_obj \<Rightarrow> module_obj" where
  "clear_own self = (reset_own self)\<lparr>fake_outputs := [], fake_inputs := []\<rparr>"

definition next_own :: "int \<Rightarrow> module_obj \<Rightarrow> module_obj" where
  "next_own iteration self = reset_proxies_own (self\<lparr>call_iter := call_iter self + iteration\<rparr>)"

fun on_self :: "(module_obj \<Rightarrow> module_obj) \<Rightarrow> mtree \<Rightarrow> mtree" where
  "on_self f (MNode m ts) = MNode (f m) ts"

fun map_modules :: "(module_obj \<Rightarrow> module_obj) \<Rightarrow> mtree \<Rightarrow> mtree" where
  "map_modules f (MNode m ts) = MNode (f m) (map (map_modules f) ts)"

text \<open>\<^verbatim>\<open>self.modules()\<close> of torch: the module itself, then its descendants.\<close>

fun modules :: "mtree \<Rightarrow> module_obj list" where
  "modules (MNode m ts) = m # concat (map modules ts)"

definition for_each_Module :: "pyclass list \<Rightarrow> (module_obj \<Rightarrow> module_obj) \<Rightarrow> mtree \<Rightarrow> mtree" where
  "for_each_Module C f self =
     map_modules (\<lambda>module. if isinstance_Module C module then f module else module) self"

definition reset_proxies :: "pyclass list \<Rightarrow> mtree \<Rightarrow> bool \<Rightarrow> mtree" where
  "reset_proxies C self propagate =
     (let self = on_self reset_proxies_own self
      in if propagate then for_each_Module C reset_proxies_own self else self)"

definition reset :: "pyclass list \<Rightarrow> mtree \<Rightarrow> bool \<Rightarrow> mtree" where
  "reset C self propagate =
     (let self = on_self reset_own self
      in if propagate then for_each_Module C reset_own self else self)"

definition clear :: "pyclass list \<Rightarrow> mtree \<Rightarrow> bool \<Rightarrow> mtree" where
  "clear C self propagate =
     (let self = on_self clear_own self
      in if propagate then for_each_Module C clear_own self else self)"

definition Module_next :: "pyclass list \<Rightarrow> mtree \<Rightarrow> int \<Rightarrow> bool \<Rightarrow> mtree" where
  "Module_next C self iteration propagate =
     (let self = on_self (next_own iteration) self
      in if propagate then for_each_Module C (next_own 1) self else self)"

subsection \<open>\<^verbatim>\<open>wrap\<close> and its completion hook\<close>

text \<open>
  The closure \<^verbatim>\<open>hook\<close> of \<^verbatim>\<open>wrap\<close>. \<^verbatim>\<open>detect_fake_mode\<close> belongs to torch and is a
  parameter: whether the input was produced in shape-only (fake tensor) mode.
\<close>

definition hook ::
  "(pyval \<Rightarrow> bool) \<Rightarrow> pyclass list \<Rightarrow> mtree \<Rightarrow> pyval \<Rightarrow> pyval \<Rightarrow> pyval \<Rightarrow> mtree" where
  "hook detect_fake_mode C module inp input_kwargs outp =
     (if detect_fake_mode inp then
        (let module = reset_proxies C module True;
             inp = PyTuple [inp, input_kwargs];
             module = on_self (\<lambda>m. m\<lparr>fake_outputs := fake_outputs m @ [outp]\<rparr>) module;
             module = on_self (\<lambda>m. m\<lparr>fake_inputs := fake_inputs m @ [inp]\<rparr>) module
         in module)
      else module)"

text \<open>
  torch calls every registered forward hook, in order of registration, each time a call
  of the module completes.
\<close>

fun run_forward_hook ::
  "(pyval \<Rightarrow> bool) \<Rightarrow> pyclass list \<Rightarrow> pyval \<Rightarrow> pyval \<Rightarrow> pyval \<Rightarrow> mtree \<Rightarrow> forward_hook \<Rightarrow> mtree" where
  "run_forward_hook dfm C inp kw outp module CompletionHook = hook dfm C module inp kw outp"
| "run_forward_hook dfm C inp kw outp module (ForeignHook _) = module"

definition call_completed ::
  "(pyval \<Rightarrow> bool) \<Rightarrow> pyclass list \<Rightarrow> mtree \<Rightarrow> pyval \<Rightarrow> pyval \<Rightarrow> pyval \<Rightarrow> mtree" where
  "call_completed dfm C module inp kw outp =
     foldl (run_forward_hook dfm C inp kw outp) module (forward_hooks (mstate module))"

definition register_forward_hook :: "module_obj \<Rightarrow> forward_hook \<Rightarrow> module_obj" where
  "register_forward_hook module h = module\<lparr>forward_hooks := forward_hooks module @ [h]\<rparr>"

text \<open>
  Modelled from the spec: \<^verbatim>\<open>util.wrap\<close> (util.py is not among the sources). The spec says
  that wrapping "augments a host computation's existing node in place" and "happens once
  per module instance (idempotent)", by "runtime class-swapping"; \<^verbatim>\<open>wrap\<close> below reads
  \<^verbatim>\<open>module.__class__.__bases__[1]\<close> as the original class, so the swapped-in class has the
  bases \<^verbatim>\<open>(Module, original class)\<close>. An object that is an instance of \<^verbatim>\<open>Module\<close> already
  is left alone; any other object gets the new class and \<^verbatim>\<open>Module.__init__\<close> runs on it.
\<close>

definition util_wrap :: "world \<Rightarrow> module_obj \<Rightarrow> world \<times> module_obj" where
  "util_wrap w obj =
     (if isinstance_Module (classes w) obj then (w, obj)
      else (let r = type_new w (cls_name (classes w ! cls obj)) [Module_cls, cls obj]
            in (fst r, Module_init (obj\<lparr>cls := snd r\<rparr>))))"

text \<open>
  The warning formats the class object. The model prints a class by its name alone, where
  Python prints the name qualified by the module that defines the class.
\<close>

definition class_repr :: "string \<Rightarrow> string" where
  "class_repr name = ''<class '' @ [CHR 0x27] @ name @ [CHR 0x27] @ ''>''"

definition preserved_warning :: "string \<Rightarrow> string" where
  "preserved_warning name =
     ''Module of type `'' @ class_repr name @
     ''` has pre-defined either an `output` attribute or an `input` attribute. '' @
     ''nnsight input and output access will be mounted at `.nns_output` and `.nns_input '' @
     ''instead of `.output` and `.input` respectively for this module only.''"

definition warn :: "world \<Rightarrow> string \<Rightarrow> world" where
  "warn w msg = w\<lparr>warnings := warnings w @ [msg]\<rparr>"

text \<open>The branch of \<^verbatim>\<open>wrap\<close> that preserves pre-defined attributes, statement by statement.\<close>

definition wrap_preserve ::
  "world \<Rightarrow> module_obj \<Rightarrow> nat \<Rightarrow> pyval \<Rightarrow> pyval \<Rightarrow> py_error + (world \<times> module_obj)" where
  "wrap_preserve w module original_cls original_output original_input =
     (let w = warn w (preserved_warning (cls_name (classes w ! original_cls)));
          module_cls = Module_cls;
          r = type_new w (cls_name (classes w ! module_cls) @ ''.Preserved'') [module_cls];
          w = fst r; new_module_cls = snd r
      in case getattr_cls w new_module_cls ''output'' of
           Inl e \<Rightarrow> Inl e
         | Inr nns_output \<Rightarrow>
      (case getattr_cls w new_module_cls ''input'' of
           Inl e \<Rightarrow> Inl e
         | Inr nns_input \<Rightarrow>
      (let w = setattr_cls w new_module_cls ''nns_output'' nns_output;
           w = setattr_cls w new_module_cls ''output'' original_output;
           w = setattr_cls w new_module_cls ''nns_input'' nns_input;
           w = setattr_cls w new_module_cls ''input'' original_input
       in case py_index (bases (classes w ! cls module)) 1 of
            Inl e \<Rightarrow> Inl e
          | Inr b \<Rightarrow>
              (let r = type_new w (cls_name (classes w ! cls module) @ ''.Preserved'')
                         [new_module_cls, b]
               in Inr (fst r, module\<lparr>cls := snd r\<rparr>)))))"

definition wrap :: "world \<Rightarrow> module_obj \<Rightarrow> py_error + (world \<times> module_obj)" where
  "wrap w module =
     (case getattr_default w module ''output'' of
        Inl e \<Rightarrow> Inl e
      | Inr (original_output, w, module) \<Rightarrow>
     (case getattr_default w module ''input'' of
        Inl e \<Rightarrow> Inl e
      | Inr (original_input, w, module) \<Rightarrow>
     (let original_cls = cls module;
          r = util_wrap w module
      in case (if original_output \<noteq> PyNone \<or> original_input \<noteq> PyNone
               then wrap_preserve (fst r) (snd r) original_cls original_output original_input
               else Inr r) of
           Inl e \<Rightarrow> Inl e
         | Inr (w, module) \<Rightarrow> Inr (w, register_forward_hook module CompletionHook))))"

subsection \<open>A concrete world\<close>

text \<open>
  The classes \<^verbatim>\<open>object\<close>, \<^verbatim>\<open>torch.nn.Module\<close>, \<^verbatim>\<open>Module\<close> and a host class \<^verbatim>\<open>Linear\<close>; an object of
  class \<^verbatim>\<open>Linear\<close> that has not been wrapped; and the same world after wrapping, with a
  session attached to the wrapped module and two recorded placeholders.
\<close>

definition demo_classes :: "pyclass list" where
  "demo_classes =
     [\<lparr>cls_name = ''object'', bases = [], mro = [0], cls_dict = Map.empty\<rparr>,
      \<lparr>cls_name = ''torch.nn.Module'', bases = [0], mro = [1, 0], cls_dict = Map.empty\<rparr>,
      Module_class,
      \<lparr>cls_name = ''Linear'', bases = [1], mro = [3, 1, 0], cls_dict = Map.empty\<rparr>]"

definition demo_world :: world where
  "demo_world =
     \<lparr>classes = demo_classes, graphs = (\<lambda>_. []), tracers = (\<lambda>_. session_start 0), warnings = []\<rparr>"

definition demo_obj :: module_obj where
  "demo_obj =
     \<lparr>cls = 3, attrs = Map.empty, forward_hooks = [], module_path = [], call_iter = 0,
      fake_outputs = [], fake_inputs = [], output_proxy = None, input_proxy = None,
      traced_graph = None, tracer = None\<rparr>"

definition traced_world :: world where
  "traced_world =
     \<lparr>classes = demo_classes @
        [\<lparr>cls_name = ''Linear'', bases = [2, 3], mro = [4, 2, 3, 1, 0], cls_dict = Map.empty\<rparr>],
      graphs = (\<lambda>_. []),
      tracers = (\<lambda>_. \<lparr>generation_idx = 0, batch_size = 1, batch_start = 0, prompts = [], graph = 0\<rparr>),
      warnings = []\<rparr>"

definition traced_module :: module_obj where
  "traced_module =
     \<lparr>cls = 4, attrs = Map.empty, forward_hooks = [CompletionHook], module_path = ''lm_head'',
      call_iter = 0, fake_outputs = [PyObj 10, PyObj 11],
      fake_inputs = [PyTuple [PyObj 1, PyNone], PyTuple [PyObj 2, PyNone]],
      output_proxy = None, input_proxy = None, traced_graph = None, tracer = Some 0\<rparr>"

text \<open>
  For concrete runs: a shape-only run, in which \<^verbatim>\<open>detect_fake_mode\<close> finds a fake mode for
  every input; \<^verbatim>\<open>wrap\<close> called twice on the same object; and the placeholder outputs that a
  module returned by \<^verbatim>\<open>wrap\<close> has recorded after one completed call in a shape-only run.
\<close>

definition fake_run :: "pyval \<Rightarrow> bool" where
  "fake_run inp = True"

definition wrap_twice :: "world \<Rightarrow> module_obj \<Rightarrow> py_error + (world \<times> module_obj)" where
  "wrap_twice w module = (case wrap w module of Inl e \<Rightarrow> Inl e | Inr (w1, m1) \<Rightarrow> wrap w1 m1)"

definition outputs_of_one_call :: "py_error + (world \<times> module_obj) \<Rightarrow> pyval \<Rightarrow> pyval list" where
  "outputs_of_one_call r outp =
     (case r of
        Inl e \<Rightarrow> []
      | Inr (w, m) \<Rightarrow>
          fake_outputs (mstate (call_completed fake_run (classes w) (MNode m []) PyNone PyNone outp)))"




section \<open>Properties of the invocation session\<close>

lemma step_next_idx:
  "generation_idx (fst (Invoker_next host ik st)) = generation_idx (fst st) + 1"
  by (simp add: Invoker_next_def Let_def)

lemma step_enter_idx: "generation_idx (fst (snd (Invoker_enter host ik st))) = 0"
  by (simp add: Invoker_enter_def Let_def)

lemma run_nexts_idx:
  "list_all is_next ns \<Longrightarrow>
   generation_idx (fst (foldl (step host) st ns)) = generation_idx (fst st) + int (length ns)"
proof (induction ns arbitrary: st)
  case Nil
  then show ?case by simp
next
  case (Cons e ns)
  then obtain ik where e: "e = Next ik" by (cases e) auto
  from Cons have "list_all is_next ns" by simp
  then have "generation_idx (fst (foldl (step host) (step host st e) ns))
      = generation_idx (fst (step host st e)) + int (length ns)"
    by (rule Cons.IH)
  then show ?case using e by (simp add: step_next_idx)
qed

text \<open>
  C3, as stated, fails: entering a second Invoker scope after \<^verbatim>\<open>next()\<close> has raised the
  generation-step index sets the index back to zero.
\<close>

theorem generation_idx_decreases_counterexample:
  "generation_idx (fst (run_session demo_host (session_start 0, ())
      [Enter (Invoker_init (Text ''A'') ()), Next (Invoker_init (Text ''A'') ()),
       Enter (Invoker_init (Text ''BB'') ())]))
   < generation_idx (fst (run_session demo_host (session_start 0, ())
      [Enter (Invoker_init (Text ''A'') ()), Next (Invoker_init (Text ''A'') ())]))"
  by (simp add: run_session_def Invoker_enter_def Invoker_next_def Let_def session_start_def)

text \<open>
  C3, amended: every \<^verbatim>\<open>next()\<close> call raises the generation-step index by exactly one, and
  every Invoker scope entry sets it to zero; so after any sequence of operations of a
  session the index is the number of \<^verbatim>\<open>next()\<close> calls since the latest scope entry, and it
  never decreases between two scope entries.
\<close>

theorem generation_idx_since_enter:
  "generation_idx (fst (run_session host st (evs @ [Next ik'])))
     = generation_idx (fst (run_session host st evs)) + 1
   \<and> (list_all is_next ns \<longrightarrow>
        generation_idx (fst (run_session host st (evs @ Enter ik # ns))) = int (length ns))"
proof -
  have "generation_idx (fst (run_session host st (evs @ [Next ik'])))
     = generation_idx (fst (run_session host st evs)) + 1"
    by (simp add: run_session_def step_next_idx)
  moreover have "generation_idx (fst (run_session host st (evs @ Enter ik # ns))) = int (length ns)"
    if "list_all is_next ns"
    using run_nexts_idx [OF that, of host "step host (foldl (step host) st evs) (Enter ik)"]
    by (simp add: run_session_def step_enter_idx)
  ultimately show ?thesis by blast
qed

theorem generation_idx_since_enter_witness:
  "list_all is_next [Next (Invoker_init (Text ''A'') ()), Next (Invoker_init (Text ''A'') ())]
   \<and> generation_idx (fst (run_session demo_host (session_start 0, ())
        ([Next (Invoker_init (Text ''A'') ())] @ Enter (Invoker_init (Text ''A'') ())
          # [Next (Invoker_init (Text ''A'') ()), Next (Invoker_init (Text ''A'') ())]))) = 2"
  using generation_idx_since_enter [of demo_host "(session_start 0, ())"
      "[Next (Invoker_init (Text ''A'') ())]" "Invoker_init (Text ''A'') ()"
      "[Next (Invoker_init (Text ''A'') ()), Next (Invoker_init (Text ''A'') ())]"
      "Invoker_init (Text ''A'') ()"]
  by simp

lemma next_keeps_batch:
  "batch_size (fst (Invoker_next host ik st)) = batch_size (fst st)
   \<and> prompts (fst (Invoker_next host ik st)) = prompts (fst st)"
  by (simp add: Invoker_next_def Let_def)

lemma enter_batch_size:
  "batch_size (fst (snd (Invoker_enter host ik st)))
     = int (length (input_ids (prepare_inputs host (inv_input ik))))"
  by (simp add: Invoker_enter_def Let_def)

lemma enter_prompts:
  "prompts (fst (snd (Invoker_enter host ik st)))
     = prompts (fst st)
       @ map (\<lambda>xs. concat (map (decode host) xs)) (input_ids (prepare_inputs host (inv_input ik)))"
  by (simp add: Invoker_enter_def Let_def)

lemma run_nexts_batch:
  "list_all is_next ns \<Longrightarrow>
   batch_size (fst (foldl (step host) st ns)) = batch_size (fst st)"
proof (induction ns arbitrary: st)
  case Nil
  then show ?case by simp
next
  case (Cons e ns)
  then obtain ik where e: "e = Next ik" by (cases e) auto
  from Cons have "list_all is_next ns" by simp
  then have "batch_size (fst (foldl (step host) (step host st e) ns))
      = batch_size (fst (step host st e))"
    by (rule Cons.IH)
  then show ?case using e by (simp add: next_keeps_batch)
qed

lemma run_prompts_length:
  "length (prompts (fst (foldl (step host) st evs)))
     = length (prompts (fst st)) + sum_list (map (example_count host) evs)"
proof (induction evs arbitrary: st)
  case Nil
  then show ?case by simp
next
  case (Cons e evs)
  show ?case
  proof (cases e)
    case (Enter ik)
    then show ?thesis using Cons [of "step host st e"] by (simp add: enter_prompts)
  next
    case (Next ik)
    then show ?thesis using Cons [of "step host st e"] by (simp add: next_keeps_batch)
  qed
qed

text \<open>
  C1, as stated, fails: after an Invoker with two examples and an Invoker with one example
  have been entered, the batch size of the session is 1, the example count of the last
  Invoker, and not the sum 3.
\<close>

theorem batch_size_not_sum_counterexample:
  "batch_size (fst (run_session demo_host (session_start 0, ())
      [Enter (Invoker_init (TokenIds [[1, 2], [3]]) ()), Enter (Invoker_init (TokenIds [[4]]) ())]))
   \<noteq> int (sum_list (map (example_count demo_host)
      [Enter (Invoker_init (TokenIds [[1, 2], [3]]) ()), Enter (Invoker_init (TokenIds [[4]]) ())]))"
  by (simp add: run_session_def Invoker_enter_def Let_def session_start_def demo_host_def
      Invoker_init_def)

text \<open>
  C1, amended: after all Invoker scope entries of a session are complete (and after any
  \<^verbatim>\<open>next()\<close> calls that follow the last one), the batch size of the session is the example
  count of the Invoker entered last: the number of input-id sequences that preparing its
  raw input produces. The sum of the example counts of all Invokers is the number of
  prompts that the session's prompt list has gained.
\<close>

theorem batch_size_last_invoker:
  "(list_all is_next ns \<longrightarrow>
      batch_size (fst (run_session host st (evs @ Enter ik # ns)))
        = int (length (input_ids (prepare_inputs host (inv_input ik)))))
   \<and> length (prompts (fst (run_session host st evs)))
        = length (prompts (fst st)) + sum_list (map (example_count host) evs)"
proof -
  have "batch_size (fst (run_session host st (evs @ Enter ik # ns)))
        = int (length (input_ids (prepare_inputs host (inv_input ik))))"
    if "list_all is_next ns"
    using run_nexts_batch [OF that, of host "step host (foldl (step host) st evs) (Enter ik)"]
    by (simp add: run_session_def enter_batch_size)
  moreover have "length (prompts (fst (run_session host st evs)))
        = length (prompts (fst st)) + sum_list (map (example_count host) evs)"
    unfolding run_session_def by (rule run_prompts_length)
  ultimately show ?thesis by blast
qed

theorem batch_size_last_invoker_witness:
  "list_all is_next [Next (Invoker_init (TokenIds [[4]]) ())]
   \<and> batch_size (fst (run_session demo_host (session_start 0, ())
        ([Enter (Invoker_init (TokenIds [[1, 2], [3]]) ())]
          @ Enter (Invoker_init (TokenIds [[4::nat]]) ()) # [Next (Invoker_init (TokenIds [[4]]) ())])))
      = 1"
  using batch_size_last_invoker [of "[Next (Invoker_init (TokenIds [[4]]) ())]" demo_host
      "(session_start 0, ())" "[Enter (Invoker_init (TokenIds [[1, 2], [3]]) ())]"
      "Invoker_init (TokenIds [[4]]) ()"]
  by (simp add: demo_host_def Invoker_init_def)

section \<open>Properties of the accessors and of the reset operations\<close>

lemma py_index_nonneg:
  "0 \<le> i \<Longrightarrow> i < int (length xs) \<Longrightarrow> py_index xs i = Inr (xs ! nat i)"
  by (simp add: py_index_def)

lemma py_index_last: "xs \<noteq> [] \<Longrightarrow> py_index xs (- 1) = Inr (last xs)"
proof -
  assume ne: "xs \<noteq> []"
  then have "1 \<le> length xs" by (cases xs) simp_all
  then have "- int (length xs) \<le> - 1" and "nat (int (length xs) + - 1) = length xs - 1"
    by simp_all
  with ne show ?thesis
    by (simp add: py_index_def last_conv_nth)
qed

lemma placeholder_for_nonneg:
  "0 \<le> i \<Longrightarrow>
   placeholder_for fakes i =
     Inr (if fakes = [] then PyNone
          else if int (length fakes) \<le> i then last fakes else fakes ! nat i)"
  by (simp add: placeholder_for_def py_index_last py_index_nonneg)

text \<open>
  The call-iteration counter is a count: \<^verbatim>\<open>__init__\<close>, \<^verbatim>\<open>reset\<close> and \<^verbatim>\<open>clear\<close> set it to zero,
  \<^verbatim>\<open>next\<close> with a step that is not negative keeps it from becoming negative, and
  \<^verbatim>\<open>reset_proxies\<close> and the accessors leave it alone.
\<close>

lemma call_iter_stays_a_count:
  "call_iter (Module_init m) = 0"
  "call_iter (reset_own m) = 0"
  "call_iter (clear_own m) = 0"
  "call_iter (reset_proxies_own m) = call_iter m"
  "0 \<le> call_iter m \<Longrightarrow> 0 \<le> k \<Longrightarrow> 0 \<le> call_iter (next_own k m)"
  by (simp_all add: Module_init_def reset_own_def clear_own_def reset_proxies_own_def next_own_def)

lemma getters_keep_call_iter:
  "output_getter w m = Inr (p, w', m') \<Longrightarrow> call_iter m' = call_iter m"
  "input_getter w m = Inr (p, w', m') \<Longrightarrow> call_iter m' = call_iter m"
  by (auto simp: output_getter_def input_getter_def Let_def split: option.splits sum.splits)

lemma output_getter_cached:
  "output_proxy self = Some p \<Longrightarrow> output_getter w self = Inr (p, w, self)"
  by (simp add: output_getter_def)

lemma input_getter_cached:
  "input_proxy self = Some p \<Longrightarrow> input_getter w self = Inr (p, w, self)"
  by (simp add: input_getter_def)

lemma output_getter_fresh:
  assumes "output_proxy self = None" and "tracer self = Some t"
    and "placeholder_for (fake_outputs self) (call_iter self) = Inr v"
  shows "output_getter w self =
     Inr ((graph (tracers w t), length (graphs w (graph (tracers w t)))),
          w\<lparr>graphs := (graphs w)(graph (tracers w t) := graphs w (graph (tracers w t)) @
               [\<lparr>target = ''argument'',
                 args = [PyStr (module_path self @ ''.output''), PyInt (batch_size (tracers w t)),
                         PyInt (batch_start (tracers w t)), PyInt (call_iter self)],
                 node_value = v\<rparr>])\<rparr>,
          self\<lparr>output_proxy := Some (graph (tracers w t), length (graphs w (graph (tracers w t))))\<rparr>)"
  using assms by (simp add: output_getter_def graph_add_def Let_def)

lemma input_getter_fresh:
  assumes "input_proxy self = None" and "tracer self = Some t"
    and "placeholder_for (fake_inputs self) (call_iter self) = Inr v"
  shows "input_getter w self =
     Inr ((graph (tracers w t), length (graphs w (graph (tracers w t)))),
          w\<lparr>graphs := (graphs w)(graph (tracers w t) := graphs w (graph (tracers w t)) @
               [\<lparr>target = ''argument'',
                 args = [PyStr (module_path self @ ''.input''), PyInt (batch_size (tracers w t)),
                         PyInt (batch_start (tracers w t)), PyInt (call_iter self)],
                 node_value = v\<rparr>])\<rparr>,
          self\<lparr>input_proxy := Some (graph (tracers w t), length (graphs w (graph (tracers w t))))\<rparr>)"
  using assms by (simp add: input_getter_def graph_add_def Let_def)

text \<open>
  C8: with a session attached and a call-iteration counter that is a count (not
  negative), the first access of \<^verbatim>\<open>.output\<close> (resp. \<^verbatim>\<open>.input\<close>) within a call iteration,
  that is while no Proxy is cached, appends exactly one node to the graph of the session.
  The node has the target "argument" and the arguments: the dotted path of the module
  with ".output" (resp. ".input"), the batch size of the session, its batch offset and
  the call-iteration counter. The returned Proxy, which is the Proxy of that node, is
  cached: accessing again returns the same Proxy and changes neither the graph nor the
  module.
\<close>

theorem first_access_adds_argument_node:
  assumes "tracer self = Some t" and "0 \<le> call_iter self"
  shows "(output_proxy self = None \<longrightarrow>
           (\<exists>p w' self' n.
              output_getter w self = Inr (p, w', self')
              \<and> p = (graph (tracers w t), length (graphs w (graph (tracers w t))))
              \<and> w' = w\<lparr>graphs := (graphs w)(fst p := graphs w (fst p) @ [n])\<rparr>
              \<and> target n = ''argument''
              \<and> args n = [PyStr (module_path self @ ''.output''), PyInt (batch_size (tracers w t)),
                          PyInt (batch_start (tracers w t)), PyInt (call_iter self)]
              \<and> self' = self\<lparr>output_proxy := Some p\<rparr>
              \<and> output_getter w' self' = Inr (p, w', self')))
       \<and> (input_proxy self = None \<longrightarrow>
           (\<exists>p w' self' n.
              input_getter w self = Inr (p, w', self')
              \<and> p = (graph (tracers w t), length (graphs w (graph (tracers w t))))
              \<and> w' = w\<lparr>graphs := (graphs w)(fst p := graphs w (fst p) @ [n])\<rparr>
              \<and> target n = ''argument''
              \<and> args n = [PyStr (module_path self @ ''.input''), PyInt (batch_size (tracers w t)),
                          PyInt (batch_start (tracers w t)), PyInt (call_iter self)]
              \<and> self' = self\<lparr>input_proxy := Some p\<rparr>
              \<and> input_getter w' self' = Inr (p, w', self')))"
proof (intro conjI impI)
  assume unset: "output_proxy self = None"
  from assms(2) obtain v where v: "placeholder_for (fake_outputs self) (call_iter self) = Inr v"
    by (simp add: placeholder_for_nonneg)
  show "\<exists>p w' self' n.
          output_getter w self = Inr (p, w', self')
          \<and> p = (graph (tracers w t), length (graphs w (graph (tracers w t))))
          \<and> w' = w\<lparr>graphs := (graphs w)(fst p := graphs w (fst p) @ [n])\<rparr>
          \<and> target n = ''argument''
          \<and> args n = [PyStr (module_path self @ ''.output''), PyInt (batch_size (tracers w t)),
                      PyInt (batch_start (tracers w t)), PyInt (call_iter self)]
          \<and> self' = self\<lparr>output_proxy := Some p\<rparr>
          \<and> output_getter w' self' = Inr (p, w', self')"
  proof -
    let ?g = "graph (tracers w t)"
    let ?n = "\<lparr>target = ''argument'',
               args = [PyStr (module_path self @ ''.output''), PyInt (batch_size (tracers w t)),
                       PyInt (batch_start (tracers w t)), PyInt (call_iter self)],
               node_value = v\<rparr>"
    let ?p = "(?g, length (graphs w ?g))"
    let ?w = "w\<lparr>graphs := (graphs w)(?g := graphs w ?g @ [?n])\<rparr>"
    let ?s = "self\<lparr>output_proxy := Some ?p\<rparr>"
    have get: "output_getter w self = Inr (?p, ?w, ?s)"
      by (rule output_getter_fresh [OF unset assms(1) v])
    show ?thesis
      by (rule exI [where x = "?p"], rule exI [where x = "?w"], rule exI [where x = "?s"],
          rule exI [where x = "?n"]) (simp add: get output_getter_cached)
  qed
next
  assume unset: "input_proxy self = None"
  from assms(2) obtain v where v: "placeholder_for (fake_inputs self) (call_iter self) = Inr v"
    by (simp add: placeholder_for_nonneg)
  show "\<exists>p w' self' n.
          input_getter w self = Inr (p, w', self')
          \<and> p = (graph (tracers w t), length (graphs w (graph (tracers w t))))
          \<and> w' = w\<lparr>graphs := (graphs w)(fst p := graphs w (fst p) @ [n])\<rparr>
          \<and> target n = ''argument''
          \<and> args n = [PyStr (module_path self @ ''.input''), PyInt (batch_size (tracers w t)),
                      PyInt (batch_start (tracers w t)), PyInt (call_iter self)]
          \<and> self' = self\<lparr>input_proxy := Some p\<rparr>
          \<and> input_getter w' self' = Inr (p, w', self')"
  proof -
    let ?g = "graph (tracers w t)"
    let ?n = "\<lparr>target = ''argument'',
               args = [PyStr (module_path self @ ''.input''), PyInt (batch_size (tracers w t)),
                       PyInt (batch_start (tracers w t)), PyInt (call_iter self)],
               node_value = v\<rparr>"
    let ?p = "(?g, length (graphs w ?g))"
    let ?w = "w\<lparr>graphs := (graphs w)(?g := graphs w ?g @ [?n])\<rparr>"
    let ?s = "self\<lparr>input_proxy := Some ?p\<rparr>"
    have get: "input_getter w self = Inr (?p, ?w, ?s)"
      by (rule input_getter_fresh [OF unset assms(1) v])
    show ?thesis
      by (rule exI [where x = "?p"], rule exI [where x = "?w"], rule exI [where x = "?s"],
          rule exI [where x = "?n"]) (simp add: get input_getter_cached)
  qed
qed

lemma mstate_on_self: "mstate (on_self f self) = f (mstate self)"
  by (cases self) simp

lemma subs_on_self: "subs (on_self f self) = subs self"
  by (cases self) simp

lemma mstate_for_each_Module:
  "mstate (for_each_Module C f self) =
     (if isinstance_Module C (mstate self) then f (mstate self) else mstate self)"
  by (cases self) (simp add: for_each_Module_def)

lemma subs_for_each_Module:
  "subs (for_each_Module C f self) = map (for_each_Module C f) (subs self)"
  by (cases self) (simp add: for_each_Module_def)

lemma isinstance_Module_cls:
  "cls m' = cls m \<Longrightarrow> isinstance_Module C m' = isinstance_Module C m"
  by (simp add: isinstance_Module_def)

text \<open>
  C6: with a session attached, when the placeholder output (resp. input) list is not
  empty and the call-iteration counter is at or beyond its length, accessing \<^verbatim>\<open>.output\<close>
  (resp. \<^verbatim>\<open>.input\<close>) does not fail, and the argument node that the access creates (when no
  Proxy is cached) has the last element of the list as its placeholder value.
\<close>

theorem placeholder_falls_back_to_last:
  assumes "tracer self = Some t"
  shows "(fake_outputs self \<noteq> [] \<and> int (length (fake_outputs self)) \<le> call_iter self \<longrightarrow>
           (\<exists>p w' self'.
              output_getter w self = Inr (p, w', self')
              \<and> (output_proxy self = None \<longrightarrow>
                    (\<exists>n. graphs w' (fst p) = graphs w (fst p) @ [n] \<and> target n = ''argument''
                         \<and> node_value n = last (fake_outputs self)))))
       \<and> (fake_inputs self \<noteq> [] \<and> int (length (fake_inputs self)) \<le> call_iter self \<longrightarrow>
           (\<exists>p w' self'.
              input_getter w self = Inr (p, w', self')
              \<and> (input_proxy self = None \<longrightarrow>
                    (\<exists>n. graphs w' (fst p) = graphs w (fst p) @ [n] \<and> target n = ''argument''
                         \<and> node_value n = last (fake_inputs self)))))"
proof (intro conjI impI)
  assume a: "fake_outputs self \<noteq> [] \<and> int (length (fake_outputs self)) \<le> call_iter self"
  then have v: "placeholder_for (fake_outputs self) (call_iter self) = Inr (last (fake_outputs self))"
    by (simp add: placeholder_for_def py_index_last)
  show "\<exists>p w' self'.
          output_getter w self = Inr (p, w', self')
          \<and> (output_proxy self = None \<longrightarrow>
                (\<exists>n. graphs w' (fst p) = graphs w (fst p) @ [n] \<and> target n = ''argument''
                     \<and> node_value n = last (fake_outputs self)))"
  proof (cases "output_proxy self")
    case None
    show ?thesis by (simp add: output_getter_fresh [OF None assms v])
  next
    case (Some p)
    then show ?thesis by (simp add: output_getter_cached)
  qed
next
  assume a: "fake_inputs self \<noteq> [] \<and> int (length (fake_inputs self)) \<le> call_iter self"
  then have v: "placeholder_for (fake_inputs self) (call_iter self) = Inr (last (fake_inputs self))"
    by (simp add: placeholder_for_def py_index_last)
  show "\<exists>p w' self'.
          input_getter w self = Inr (p, w', self')
          \<and> (input_proxy self = None \<longrightarrow>
                (\<exists>n. graphs w' (fst p) = graphs w (fst p) @ [n] \<and> target n = ''argument''
                     \<and> node_value n = last (fake_inputs self)))"
  proof (cases "input_proxy self")
    case None
    show ?thesis by (simp add: input_getter_fresh [OF None assms v])
  next
    case (Some p)
    then show ?thesis by (simp add: input_getter_cached)
  qed
qed

lemma mstate_clear:
  "mstate (clear C self propagate) = clear_own (mstate self)"
  by (simp add: clear_def Let_def mstate_for_each_Module mstate_on_self)
     (simp add: clear_own_def reset_own_def reset_proxies_own_def)

text \<open>
  C7: after \<^verbatim>\<open>clear()\<close>, with or without propagation, the placeholder input and output
  lists of the module are empty and its call-iteration counter is zero; with a session
  attached, the next access of \<^verbatim>\<open>.output\<close> succeeds and creates an argument node whose
  placeholder value is \<^verbatim>\<open>None\<close>.
\<close>

theorem clear_leaves_no_placeholder:
  assumes "tracer (mstate self) = Some t"
  shows "fake_outputs (mstate (clear C self propagate)) = []
       \<and> fake_inputs (mstate (clear C self propagate)) = []
       \<and> call_iter (mstate (clear C self propagate)) = 0
       \<and> (\<exists>p w' self' n.
             output_getter w (mstate (clear C self propagate)) = Inr (p, w', self')
             \<and> graphs w' (fst p) = graphs w (fst p) @ [n]
             \<and> target n = ''argument'' \<and> node_value n = PyNone)"
proof -
  let ?m = "clear_own (mstate self)"
  have unset: "output_proxy ?m = None"
    by (simp add: clear_own_def reset_own_def reset_proxies_own_def)
  have tr: "tracer ?m = Some t"
    using assms by (simp add: clear_own_def reset_own_def reset_proxies_own_def)
  have v: "placeholder_for (fake_outputs ?m) (call_iter ?m) = Inr PyNone"
    by (simp add: placeholder_for_def clear_own_def)
  show ?thesis
    unfolding mstate_clear
    by (simp add: output_getter_fresh [OF unset tr v])
       (simp add: clear_own_def reset_own_def)
qed

lemma mstate_Module_next:
  "mstate (Module_next C self k False) = next_own k (mstate self)"
  by (simp add: Module_next_def mstate_on_self)

text \<open>
  C4: for \<open>k \<ge> 1\<close>, \<^verbatim>\<open>next(k)\<close> on a module (without propagation, as the call is written)
  clears the cached \<^verbatim>\<open>.output\<close>/\<^verbatim>\<open>.input\<close> Proxies and raises the call-iteration counter by
  exactly \<open>k\<close>; every other attribute of the module, its placeholder lists among them, and
  all its submodules stay as they are. The graph is not touched: with a session attached
  and a counter that was not negative, the next read of \<^verbatim>\<open>.output\<close> appends one fresh node,
  for iteration \<open>call_iter + k\<close>, behind the nodes created before, which all stay in place.
\<close>

theorem next_clears_proxies_and_advances:
  assumes "1 \<le> k"
  shows "mstate (Module_next C self k False)
           = (mstate self)\<lparr>call_iter := call_iter (mstate self) + k,
                            output_proxy := None, input_proxy := None\<rparr>
       \<and> subs (Module_next C self k False) = subs self
       \<and> (tracer (mstate self) = Some t \<and> 0 \<le> call_iter (mstate self) \<longrightarrow>
            (\<exists>p w' self' n.
               output_getter w (mstate (Module_next C self k False)) = Inr (p, w', self')
               \<and> graphs w' = (graphs w)(fst p := graphs w (fst p) @ [n])
               \<and> target n = ''argument''
               \<and> last (args n) = PyInt (call_iter (mstate self) + k)))"
proof (intro conjI impI)
  show "mstate (Module_next C self k False)
           = (mstate self)\<lparr>call_iter := call_iter (mstate self) + k,
                            output_proxy := None, input_proxy := None\<rparr>"
    by (simp add: mstate_Module_next next_own_def reset_proxies_own_def)
  show "subs (Module_next C self k False) = subs self"
    by (simp add: Module_next_def subs_on_self)
next
  assume a: "tracer (mstate self) = Some t \<and> 0 \<le> call_iter (mstate self)"
  let ?m = "next_own k (mstate self)"
  have unset: "output_proxy ?m = None"
    by (simp add: next_own_def reset_proxies_own_def)
  have tr: "tracer ?m = Some t"
    using a by (simp add: next_own_def reset_proxies_own_def)
  have it: "call_iter ?m = call_iter (mstate self) + k"
    by (simp add: next_own_def reset_proxies_own_def)
  with a assms have "0 \<le> call_iter ?m" by simp
  then obtain v where v: "placeholder_for (fake_outputs ?m) (call_iter ?m) = Inr v"
    by (simp add: placeholder_for_nonneg)
  show "\<exists>p w' self' n.
          output_getter w (mstate (Module_next C self k False)) = Inr (p, w', self')
          \<and> graphs w' = (graphs w)(fst p := graphs w (fst p) @ [n])
          \<and> target n = ''argument''
          \<and> last (args n) = PyInt (call_iter (mstate self) + k)"
    unfolding mstate_Module_next
    by (simp add: output_getter_fresh [OF unset tr v] it)
       (rule exI [where x = "\<lparr>target = ''argument'',
            args = [PyStr (module_path ?m @ ''.output''), PyInt (batch_size (tracers w t)),
                    PyInt (batch_start (tracers w t)), PyInt (call_iter (mstate self) + k)],
            node_value = v\<rparr>"], simp)
qed










lemma modules_map_modules: "modules (map_modules f self) = map f (modules self)"
  by (induction f self rule: map_modules.induct) (simp add: map_concat cong: map_cong)

lemma modules_for_each_Module:
  "modules (for_each_Module C f self) =
     map (\<lambda>m. if isinstance_Module C m then f m else m) (modules self)"
  by (simp add: for_each_Module_def modules_map_modules)

lemma modules_unfold: "modules self = mstate self # concat (map modules (subs self))"
  by (cases self) simp

lemma reset_proxies_own_twice: "reset_proxies_own (reset_proxies_own m) = reset_proxies_own m"
  by (simp add: reset_proxies_own_def)

lemma mstate_reset_proxies:
  "mstate (reset_proxies C self propagate) = reset_proxies_own (mstate self)"
  by (simp add: reset_proxies_def Let_def mstate_for_each_Module mstate_on_self
      reset_proxies_own_twice)

lemma subs_reset_proxies:
  "subs (reset_proxies C self True) = map (for_each_Module C reset_proxies_own) (subs self)"
  by (simp add: reset_proxies_def Let_def subs_for_each_Module subs_on_self)

lemma descendants_for_each_Module:
  "concat (map modules (map (for_each_Module C f) ts)) =
     map (\<lambda>m. if isinstance_Module C m then f m else m) (concat (map modules ts))"
  by (simp add: map_concat comp_def modules_for_each_Module)

lemma mstate_hook:
  "dfm inp \<Longrightarrow>
   mstate (hook dfm C module inp kw outp) =
     (mstate module)\<lparr>fake_outputs := fake_outputs (mstate module) @ [outp],
                      fake_inputs := fake_inputs (mstate module) @ [PyTuple [inp, kw]],
                      output_proxy := None, input_proxy := None\<rparr>"
  by (simp add: hook_def Let_def mstate_on_self mstate_reset_proxies reset_proxies_own_def)

lemma subs_hook:
  "dfm inp \<Longrightarrow>
   subs (hook dfm C module inp kw outp) = map (for_each_Module C reset_proxies_own) (subs module)"
  by (simp add: hook_def Let_def subs_on_self subs_reset_proxies)

lemma descendants_hook:
  assumes "dfm inp"
  shows "concat (map modules (subs (hook dfm C module inp kw outp))) =
     map (\<lambda>m. if isinstance_Module C m then m\<lparr>output_proxy := None, input_proxy := None\<rparr> else m)
       (concat (map modules (subs module)))"
proof -
  have "concat (map modules (subs (hook dfm C module inp kw outp))) =
      map (\<lambda>m. if isinstance_Module C m then reset_proxies_own m else m)
        (concat (map modules (subs module)))"
    by (simp only: subs_hook [of dfm inp, OF assms] descendants_for_each_Module)
  then show ?thesis by (simp add: reset_proxies_own_def)
qed

text \<open>
  C10: when the completion hook fires on a module in shape-only mode, the module's
  cached input and output Proxies are cleared, the output is appended to its placeholder
  outputs and the pair (input, input kwargs) to its placeholder inputs, and nothing else
  of it changes; every descendant that is an instance of \<^verbatim>\<open>Module\<close> has its cached Proxies
  cleared and is unchanged otherwise, every other descendant is unchanged; so no cached
  Proxy remains on a wrapped module of the subtree, and every call-iteration counter is
  as before. Outside shape-only mode the hook changes nothing.
\<close>

theorem completion_hook_effect:
  "(dfm inp \<longrightarrow>
      mstate (hook dfm C module inp kw outp) =
        (mstate module)\<lparr>fake_outputs := fake_outputs (mstate module) @ [outp],
                         fake_inputs := fake_inputs (mstate module) @ [PyTuple [inp, kw]],
                         output_proxy := None, input_proxy := None\<rparr>
      \<and> concat (map modules (subs (hook dfm C module inp kw outp))) =
          map (\<lambda>m. if isinstance_Module C m
                    then m\<lparr>output_proxy := None, input_proxy := None\<rparr> else m)
            (concat (map modules (subs module)))
      \<and> (\<forall>m \<in> set (concat (map modules (subs (hook dfm C module inp kw outp)))).
            isinstance_Module C m \<longrightarrow> output_proxy m = None \<and> input_proxy m = None)
      \<and> map call_iter (modules (hook dfm C module inp kw outp)) = map call_iter (modules module))
   \<and> (\<not> dfm inp \<longrightarrow> hook dfm C module inp kw outp = module)"
proof (intro conjI impI)
  assume fake: "dfm inp"
  show "mstate (hook dfm C module inp kw outp) =
        (mstate module)\<lparr>fake_outputs := fake_outputs (mstate module) @ [outp],
                         fake_inputs := fake_inputs (mstate module) @ [PyTuple [inp, kw]],
                         output_proxy := None, input_proxy := None\<rparr>"
    by (rule mstate_hook [of dfm inp, OF fake])
  show "concat (map modules (subs (hook dfm C module inp kw outp))) =
          map (\<lambda>m. if isinstance_Module C m
                    then m\<lparr>output_proxy := None, input_proxy := None\<rparr> else m)
            (concat (map modules (subs module)))"
    by (rule descendants_hook [of dfm inp, OF fake])
  show "\<forall>m \<in> set (concat (map modules (subs (hook dfm C module inp kw outp)))).
            isinstance_Module C m \<longrightarrow> output_proxy m = None \<and> input_proxy m = None"
    unfolding descendants_hook [of dfm inp, OF fake]
    by (auto simp: isinstance_Module_def)
  show "map call_iter (modules (hook dfm C module inp kw outp)) = map call_iter (modules module)"
    unfolding modules_unfold [of "hook dfm C module inp kw outp"] modules_unfold [of module]
      descendants_hook [of dfm inp, OF fake] mstate_hook [of dfm inp, OF fake]
    by simp
next
  assume "\<not> dfm inp"
  then show "hook dfm C module inp kw outp = module"
    by (simp add: hook_def)
qed

theorem first_access_adds_argument_node_witness:
  "tracer traced_module = Some 0 \<and> 0 \<le> call_iter traced_module
   \<and> output_proxy traced_module = None \<and> input_proxy traced_module = None
   \<and> (\<exists>p w' self'. output_getter traced_world traced_module = Inr (p, w', self')
         \<and> output_getter w' self' = Inr (p, w', self'))
   \<and> (\<exists>p w' self'. input_getter traced_world traced_module = Inr (p, w', self')
         \<and> input_getter w' self' = Inr (p, w', self'))"
proof -
  have t: "tracer traced_module = Some 0" "0 \<le> call_iter traced_module"
    by (simp_all add: traced_module_def)
  have u: "output_proxy traced_module = None" "input_proxy traced_module = None"
    by (simp_all add: traced_module_def)
  note r = first_access_adds_argument_node [OF t, of traced_world]
  from r u have "\<exists>p w' self'. output_getter traced_world traced_module = Inr (p, w', self')
         \<and> output_getter w' self' = Inr (p, w', self')"
    by blast
  moreover from r u have "\<exists>p w' self'. input_getter traced_world traced_module = Inr (p, w', self')
         \<and> input_getter w' self' = Inr (p, w', self')"
    by blast
  ultimately show ?thesis using t u by blast
qed

theorem placeholder_falls_back_to_last_witness:
  "tracer (traced_module\<lparr>call_iter := 2\<rparr>) = Some 0
   \<and> fake_outputs (traced_module\<lparr>call_iter := 2\<rparr>) \<noteq> []
   \<and> int (length (fake_outputs (traced_module\<lparr>call_iter := 2\<rparr>)))
        \<le> call_iter (traced_module\<lparr>call_iter := 2\<rparr>)
   \<and> fake_inputs (traced_module\<lparr>call_iter := 2\<rparr>) \<noteq> []
   \<and> int (length (fake_inputs (traced_module\<lparr>call_iter := 2\<rparr>)))
        \<le> call_iter (traced_module\<lparr>call_iter := 2\<rparr>)
   \<and> output_proxy (traced_module\<lparr>call_iter := 2\<rparr>) = None
   \<and> input_proxy (traced_module\<lparr>call_iter := 2\<rparr>) = None
   \<and> (\<exists>p w' self' n. output_getter traced_world (traced_module\<lparr>call_iter := 2\<rparr>) = Inr (p, w', self')
         \<and> graphs w' (fst p) = graphs traced_world (fst p) @ [n] \<and> node_value n = PyObj 11)
   \<and> (\<exists>p w' self' n. input_getter traced_world (traced_module\<lparr>call_iter := 2\<rparr>) = Inr (p, w', self')
         \<and> graphs w' (fst p) = graphs traced_world (fst p) @ [n]
         \<and> node_value n = PyTuple [PyObj 2, PyNone])"
  using placeholder_falls_back_to_last [of "traced_module\<lparr>call_iter := 2\<rparr>" 0 traced_world]
  by (simp add: traced_module_def) blast

theorem clear_leaves_no_placeholder_witness:
  "tracer (mstate (MNode traced_module [])) = Some 0
   \<and> fake_outputs traced_module \<noteq> []
   \<and> fake_outputs (mstate (clear (classes traced_world) (MNode traced_module []) True)) = []
   \<and> (\<exists>p w' self' n.
         output_getter traced_world (mstate (clear (classes traced_world) (MNode traced_module []) True))
           = Inr (p, w', self')
         \<and> graphs w' (fst p) = graphs traced_world (fst p) @ [n] \<and> node_value n = PyNone)"
  using clear_leaves_no_placeholder [of "MNode traced_module []" 0 "classes traced_world" True
      traced_world]
  by (simp add: traced_module_def) blast

theorem next_clears_proxies_and_advances_witness:
  "(1::int) \<le> 1 \<and> tracer (mstate (MNode traced_module [])) = Some 0
   \<and> 0 \<le> call_iter (mstate (MNode traced_module []))
   \<and> mstate (Module_next (classes traced_world) (MNode traced_module []) 1 False)
       = traced_module\<lparr>call_iter := 1\<rparr>
   \<and> (\<exists>p w' self' n.
         output_getter traced_world
             (mstate (Module_next (classes traced_world) (MNode traced_module []) 1 False))
           = Inr (p, w', self')
         \<and> graphs w' = (graphs traced_world)(fst p := graphs traced_world (fst p) @ [n])
         \<and> target n = ''argument''
         \<and> last (args n) = PyInt (call_iter (mstate (MNode traced_module [])) + 1))"
proof -
  have k: "(1::int) \<le> 1" by simp
  have h: "tracer (mstate (MNode traced_module [])) = Some 0
      \<and> 0 \<le> call_iter (mstate (MNode traced_module []))"
    by (simp add: traced_module_def)
  note r = next_clears_proxies_and_advances [OF k, of "classes traced_world"
      "MNode traced_module []" 0 traced_world]
  from r have "mstate (Module_next (classes traced_world) (MNode traced_module []) 1 False)
       = traced_module\<lparr>call_iter := 1\<rparr>"
    by (simp add: traced_module_def)
  with k h r show ?thesis by blast
qed


theorem completion_hook_effect_witness:
  "(\<lambda>v. v = PyObj 1) (PyObj 1)
   \<and> isinstance_Module (classes traced_world) traced_module
   \<and> traced_module\<lparr>output_proxy := Some (0, 0)\<rparr>
       \<in> set (concat (map modules (subs (MNode traced_module
            [MNode (traced_module\<lparr>output_proxy := Some (0, 0)\<rparr>) []]))))
   \<and> concat (map modules (subs (hook (\<lambda>v. v = PyObj 1) (classes traced_world)
        (MNode traced_module [MNode (traced_module\<lparr>output_proxy := Some (0, 0)\<rparr>) []])
        (PyObj 1) PyNone (PyObj 12)))) = [traced_module]
   \<and> fake_outputs (mstate (hook (\<lambda>v. v = PyObj 1) (classes traced_world)
        (MNode traced_module [MNode (traced_module\<lparr>output_proxy := Some (0, 0)\<rparr>) []])
        (PyObj 1) PyNone (PyObj 12))) = [PyObj 10, PyObj 11, PyObj 12]
   \<and> \<not> (\<lambda>v. v = PyObj 1) (PyObj 2)
   \<and> hook (\<lambda>v. v = PyObj 1) (classes traced_world)
        (MNode traced_module [MNode (traced_module\<lparr>output_proxy := Some (0, 0)\<rparr>) []])
        (PyObj 2) PyNone (PyObj 12)
      = MNode traced_module [MNode (traced_module\<lparr>output_proxy := Some (0, 0)\<rparr>) []]"
proof -
  have inst: "isinstance_Module (classes traced_world) traced_module"
    by (simp add: isinstance_Module_def traced_world_def traced_module_def demo_classes_def
        Module_cls_def)
  then have inst': "isinstance_Module (classes traced_world)
      (traced_module\<lparr>output_proxy := Some (0, 0)\<rparr>)"
    by (simp add: isinstance_Module_def)
  have unset: "traced_module\<lparr>output_proxy := None, input_proxy := None\<rparr> = traced_module"
    by (simp add: traced_module_def)
  show ?thesis
    using completion_hook_effect [of "\<lambda>v. v = PyObj 1" "PyObj 1" "classes traced_world"
        "MNode traced_module [MNode (traced_module\<lparr>output_proxy := Some (0, 0)\<rparr>) []]"
        PyNone "PyObj 12"]
      completion_hook_effect [of "\<lambda>v. v = PyObj 1" "PyObj 2" "classes traced_world"
        "MNode traced_module [MNode (traced_module\<lparr>output_proxy := Some (0, 0)\<rparr>) []]"
        PyNone "PyObj 12"]
      inst inst' unset
    by (simp add: traced_module_def)
qed


section \<open>Properties of \<^verbatim>\<open>wrap\<close>\<close>

lemma type_new_simps:
  "fst (type_new w name bs) =
     w\<lparr>classes := classes w @
        [\<lparr>cls_name = name, bases = bs,
          mro = length (classes w) #
                remdups (concat (map (\<lambda>b. if b < length (classes w) then mro (classes w ! b) else []) bs)),
          cls_dict = Map.empty\<rparr>]\<rparr>"
  "snd (type_new w name bs) = length (classes w)"
  by (simp_all add: type_new_def Let_def)

lemma util_wrap_fresh:
  assumes "\<not> isinstance_Module (classes w) obj"
    and "Module_cls < length (classes w)" and "classes w ! Module_cls = Module_class"
    and "cls obj < length (classes w)"
  shows "util_wrap w obj =
     (w\<lparr>classes := classes w @
         [\<lparr>cls_name = cls_name (classes w ! cls obj), bases = [Module_cls, cls obj],
           mro = length (classes w) # remdups (mro Module_class @ mro (classes w ! cls obj)),
           cls_dict = Map.empty\<rparr>]\<rparr>,
      Module_init (obj\<lparr>cls := length (classes w)\<rparr>))"
  using assms by (simp add: util_wrap_def type_new_simps Let_def)

lemma util_wrap_again:
  "isinstance_Module (classes w) obj \<Longrightarrow> util_wrap w obj = (w, obj)"
  by (simp add: util_wrap_def)

lemma Module_class_lookup:
  assumes "Module_cls < length C" and "C ! Module_cls = Module_class"
  shows "lookup_mro C (Module_cls # cs) ''output'' = Some (PyProperty OutputAccessor)"
    and "lookup_mro C (Module_cls # cs) ''input'' = Some (PyProperty InputAccessor)"
  using assms by (simp_all add: Module_class_def)

lemma wrap_preserve_result:
  assumes M: "Module_cls < length (classes w)" "classes w ! Module_cls = Module_class"
    and c: "cls module < length (classes w)" "bases (classes w ! cls module) = [b0, b1]"
    and b: "b1 < length (classes w)"
  shows "wrap_preserve w module oc oo oi =
     Inr (w\<lparr>classes := classes w @
             [\<lparr>cls_name = ''Module.Preserved'', bases = [Module_cls],
               mro = length (classes w) # mro Module_class,
               cls_dict = [''nns_output'' \<mapsto> PyProperty OutputAccessor, ''output'' \<mapsto> oo,
                           ''nns_input'' \<mapsto> PyProperty InputAccessor, ''input'' \<mapsto> oi]\<rparr>,
              \<lparr>cls_name = cls_name (classes w ! cls module) @ ''.Preserved'',
               bases = [length (classes w), b1],
               mro = Suc (length (classes w)) #
                     remdups (length (classes w) # mro Module_class @ mro (classes w ! b1)),
               cls_dict = Map.empty\<rparr>],
            warnings := warnings w @ [preserved_warning (cls_name (classes w ! oc))]\<rparr>,
          module\<lparr>cls := Suc (length (classes w))\<rparr>)"
proof -
  let ?n = "length (classes w)"
  let ?msg = "preserved_warning (cls_name (classes w ! oc))"
  let ?E = "\<lparr>cls_name = ''Module.Preserved'', bases = [Module_cls],
               mro = ?n # mro Module_class, cls_dict = Map.empty\<rparr>"
  let ?N = "\<lparr>cls_name = ''Module.Preserved'', bases = [Module_cls],
               mro = ?n # mro Module_class,
               cls_dict = [''nns_output'' \<mapsto> PyProperty OutputAccessor, ''output'' \<mapsto> oo,
                           ''nns_input'' \<mapsto> PyProperty InputAccessor, ''input'' \<mapsto> oi]\<rparr>"
  let ?w1 = "warn w ?msg"
  let ?w2 = "w\<lparr>classes := classes w @ [?E], warnings := warnings w @ [?msg]\<rparr>"
  let ?w6 = "w\<lparr>classes := classes w @ [?N], warnings := warnings w @ [?msg]\<rparr>"
  have rd: "remdups (mro Module_class) = mro Module_class"
    by (simp add: Module_class_def Module_cls_def torch_Module_cls_def object_cls_def)
  have nm: "cls_name Module_class = ''Module''" by (simp add: Module_class_def)
  have t1: "type_new ?w1 (cls_name (classes ?w1 ! Module_cls) @ ''.Preserved'') [Module_cls]
      = (?w2, ?n)"
    using M by (simp add: type_new_def Let_def warn_def rd nm)
  have g1: "getattr_cls ?w2 ?n ''output'' = Inr (PyProperty OutputAccessor)"
    using M by (simp add: getattr_cls_def class_attr_def nth_append Module_class_def)
  have g2: "getattr_cls ?w2 ?n ''input'' = Inr (PyProperty InputAccessor)"
    using M by (simp add: getattr_cls_def class_attr_def nth_append Module_class_def)
  have s4: "setattr_cls (setattr_cls (setattr_cls (setattr_cls ?w2 ?n
                ''nns_output'' (PyProperty OutputAccessor)) ?n ''output'' oo)
                ?n ''nns_input'' (PyProperty InputAccessor)) ?n ''input'' oi = ?w6"
    by (simp add: setattr_cls_def)
  have idx: "py_index (bases (classes ?w6 ! cls module)) 1 = Inr b1"
    using c by (simp add: py_index_def nth_append)
  have t2: "type_new ?w6 (cls_name (classes ?w6 ! cls module) @ ''.Preserved'') [?n, b1]
      = (w\<lparr>classes := classes w @ [?N,
              \<lparr>cls_name = cls_name (classes w ! cls module) @ ''.Preserved'',
               bases = [?n, b1],
               mro = Suc ?n # remdups (?n # mro Module_class @ mro (classes w ! b1)),
               cls_dict = Map.empty\<rparr>],
            warnings := warnings w @ [?msg]\<rparr>, Suc ?n)"
    using c b by (simp add: type_new_def Let_def nth_append)
  show ?thesis
    unfolding wrap_preserve_def Let_def
    by (simp only: t1 fst_conv snd_conv g1 g2 sum.case s4 idx t2)
qed

lemma wrap_preserved_result:
  assumes M: "Module_cls < length (classes w)" "classes w ! Module_cls = Module_class"
    and c: "cls obj < length (classes w)"
    and ni: "\<not> isinstance_Module (classes w) obj"
    and go: "getattr_default w obj ''output'' = Inr (oo, w, obj)"
    and gi: "getattr_default w obj ''input'' = Inr (oi, w, obj)"
    and ne: "oo \<noteq> PyNone \<or> oi \<noteq> PyNone"
  shows "wrap w obj =
     Inr (w\<lparr>classes := classes w @
             [\<lparr>cls_name = cls_name (classes w ! cls obj), bases = [Module_cls, cls obj],
               mro = length (classes w) # remdups (mro Module_class @ mro (classes w ! cls obj)),
               cls_dict = Map.empty\<rparr>,
              \<lparr>cls_name = ''Module.Preserved'', bases = [Module_cls],
               mro = Suc (length (classes w)) # mro Module_class,
               cls_dict = [''nns_output'' \<mapsto> PyProperty OutputAccessor, ''output'' \<mapsto> oo,
                           ''nns_input'' \<mapsto> PyProperty InputAccessor, ''input'' \<mapsto> oi]\<rparr>,
              \<lparr>cls_name = cls_name (classes w ! cls obj) @ ''.Preserved'',
               bases = [Suc (length (classes w)), cls obj],
               mro = Suc (Suc (length (classes w))) #
                     remdups (Suc (length (classes w)) # mro Module_class @ mro (classes w ! cls obj)),
               cls_dict = Map.empty\<rparr>],
            warnings := warnings w @ [preserved_warning (cls_name (classes w ! cls obj))]\<rparr>,
          (Module_init (obj\<lparr>cls := Suc (Suc (length (classes w)))\<rparr>))
            \<lparr>forward_hooks := forward_hooks obj @ [CompletionHook]\<rparr>)"
proof -
  let ?n = "length (classes w)"
  let ?W = "\<lparr>cls_name = cls_name (classes w ! cls obj), bases = [Module_cls, cls obj],
               mro = ?n # remdups (mro Module_class @ mro (classes w ! cls obj)),
               cls_dict = Map.empty\<rparr>"
  let ?w1 = "w\<lparr>classes := classes w @ [?W]\<rparr>"
  let ?m1 = "Module_init (obj\<lparr>cls := ?n\<rparr>)"
  have uw: "util_wrap w obj = (?w1, ?m1)"
    by (rule util_wrap_fresh [OF ni M c])
  have p: "wrap_preserve ?w1 ?m1 (cls obj) oo oi =
     Inr (?w1\<lparr>classes := classes ?w1 @
             [\<lparr>cls_name = ''Module.Preserved'', bases = [Module_cls],
               mro = length (classes ?w1) # mro Module_class,
               cls_dict = [''nns_output'' \<mapsto> PyProperty OutputAccessor, ''output'' \<mapsto> oo,
                           ''nns_input'' \<mapsto> PyProperty InputAccessor, ''input'' \<mapsto> oi]\<rparr>,
              \<lparr>cls_name = cls_name (classes ?w1 ! cls ?m1) @ ''.Preserved'',
               bases = [length (classes ?w1), cls obj],
               mro = Suc (length (classes ?w1)) #
                     remdups (length (classes ?w1) # mro Module_class @ mro (classes ?w1 ! cls obj)),
               cls_dict = Map.empty\<rparr>],
            warnings := warnings ?w1 @ [preserved_warning (cls_name (classes ?w1 ! cls obj))]\<rparr>,
          ?m1\<lparr>cls := Suc (length (classes ?w1))\<rparr>)"
    using M c by (intro wrap_preserve_result) (simp_all add: nth_append Module_init_def)
  have p': "wrap_preserve ?w1 ?m1 (cls obj) oo oi =
     Inr (w\<lparr>classes := classes w @
             [?W,
              \<lparr>cls_name = ''Module.Preserved'', bases = [Module_cls],
               mro = Suc ?n # mro Module_class,
               cls_dict = [''nns_output'' \<mapsto> PyProperty OutputAccessor, ''output'' \<mapsto> oo,
                           ''nns_input'' \<mapsto> PyProperty InputAccessor, ''input'' \<mapsto> oi]\<rparr>,
              \<lparr>cls_name = cls_name (classes w ! cls obj) @ ''.Preserved'',
               bases = [Suc ?n, cls obj],
               mro = Suc (Suc ?n) #
                     remdups (Suc ?n # mro Module_class @ mro (classes w ! cls obj)),
               cls_dict = Map.empty\<rparr>],
            warnings := warnings w @ [preserved_warning (cls_name (classes w ! cls obj))]\<rparr>,
          Module_init (obj\<lparr>cls := Suc (Suc ?n)\<rparr>))"
    unfolding p using c by (simp add: nth_append Module_init_def)
  have rh: "register_forward_hook (Module_init (obj\<lparr>cls := Suc (Suc ?n)\<rparr>)) CompletionHook
      = (Module_init (obj\<lparr>cls := Suc (Suc ?n)\<rparr>))
          \<lparr>forward_hooks := forward_hooks obj @ [CompletionHook]\<rparr>"
    by (simp add: register_forward_hook_def Module_init_def)
  show ?thesis
    by (simp only: wrap_def go gi prod.case sum.case Let_def uw fst_conv snd_conv ne if_True p' rh)
qed

lemma lookup_mro_append:
  "\<forall>x \<in> set cs. x < length C \<Longrightarrow> lookup_mro (C @ D) cs name = lookup_mro C cs name"
  by (induction cs) (simp_all add: nth_append split: option.splits)

lemma class_attr_append:
  assumes "c < length C" and "\<forall>x \<in> set (mro (C ! c)). x < length C"
  shows "class_attr (C @ D) c name = class_attr C c name"
  using assms by (simp add: class_attr_def nth_append lookup_mro_append)

lemma own_attr_value:
  assumes "\<forall>a. class_attr (classes w) (cls obj) name \<noteq> Some (PyProperty a)"
    and "getattr_default w obj name = Inr (v, w, obj)"
    and "attrs obj name = Some u"
  shows "u = v"
  using assms by (simp add: getattr_default_def getattr_obj_def Let_def)

lemma getattr_obj_plain:
  assumes "class_attr (classes w) (cls obj) name = Some v" and "\<forall>a. v \<noteq> PyProperty a"
    and "\<And>u. attrs obj name = Some u \<Longrightarrow> u = v"
  shows "getattr_obj w obj name = Inr (v, w, obj)"
  using assms by (auto simp: getattr_obj_def Let_def split: option.splits)

lemma Module_class_mro_bound:
  "Module_cls < n \<Longrightarrow> \<forall>x \<in> set (mro Module_class). x < n"
  by (simp add: Module_class_def Module_cls_def torch_Module_cls_def object_cls_def)

lemma preserved_class_attr:
  assumes M: "Module_cls < n" and r: "\<forall>x \<in> set ms. x < n"
    and len: "Suc (Suc n) < length C'"
    and P: "mro (C' ! Suc (Suc n)) = Suc (Suc n) # remdups (Suc n # mro Module_class @ ms)"
      "cls_dict (C' ! Suc (Suc n)) name = None"
    and N: "cls_dict (C' ! Suc n) name = Some v"
  shows "class_attr C' (Suc (Suc n)) name = Some v"
proof -
  have "Suc n \<notin> set (mro Module_class @ ms)"
    using Module_class_mro_bound [OF M] r by auto
  then have rd: "remdups (Suc n # mro Module_class @ ms) = Suc n # remdups (mro Module_class @ ms)"
    by simp
  show ?thesis
    unfolding class_attr_def P(1) rd using len P(2) N by simp
qed

lemma wrap_plain_result:
  assumes M: "Module_cls < length (classes w)" "classes w ! Module_cls = Module_class"
    and c: "cls obj < length (classes w)"
    and ni: "\<not> isinstance_Module (classes w) obj"
    and go: "getattr_default w obj ''output'' = Inr (PyNone, w, obj)"
    and gi: "getattr_default w obj ''input'' = Inr (PyNone, w, obj)"
  shows "wrap w obj =
     Inr (w\<lparr>classes := classes w @
             [\<lparr>cls_name = cls_name (classes w ! cls obj), bases = [Module_cls, cls obj],
               mro = length (classes w) # remdups (mro Module_class @ mro (classes w ! cls obj)),
               cls_dict = Map.empty\<rparr>]\<rparr>,
          (Module_init (obj\<lparr>cls := length (classes w)\<rparr>))
            \<lparr>forward_hooks := forward_hooks obj @ [CompletionHook]\<rparr>)"
proof -
  have rh: "register_forward_hook (Module_init (obj\<lparr>cls := length (classes w)\<rparr>)) CompletionHook
      = (Module_init (obj\<lparr>cls := length (classes w)\<rparr>))
          \<lparr>forward_hooks := forward_hooks obj @ [CompletionHook]\<rparr>"
    by (simp add: register_forward_hook_def Module_init_def)
  show ?thesis
    by (simp only: wrap_def go gi prod.case sum.case Let_def util_wrap_fresh [OF ni M c]
        simp_thms if_False rh)
qed

lemma getattr_default_no_session:
  assumes "tracer self = None" and "0 \<le> call_iter self"
    and "output_proxy self = None" and "input_proxy self = None"
    and "class_attr (classes w) (cls self) ''output'' = Some (PyProperty OutputAccessor)"
    and "class_attr (classes w) (cls self) ''input'' = Some (PyProperty InputAccessor)"
  shows "getattr_default w self ''output'' = Inr (PyNone, w, self)"
    and "getattr_default w self ''input'' = Inr (PyNone, w, self)"
  using assms
  by (simp_all add: getattr_default_def getattr_obj_def output_getter_def input_getter_def
      placeholder_for_nonneg)

lemma wrap_again_result:
  assumes "isinstance_Module (classes w) self"
    and "tracer self = None" and "0 \<le> call_iter self"
    and "output_proxy self = None" and "input_proxy self = None"
    and "class_attr (classes w) (cls self) ''output'' = Some (PyProperty OutputAccessor)"
    and "class_attr (classes w) (cls self) ''input'' = Some (PyProperty InputAccessor)"
  shows "wrap w self = Inr (w, self\<lparr>forward_hooks := forward_hooks self @ [CompletionHook]\<rparr>)"
  by (simp only: wrap_def getattr_default_no_session [OF assms(2-7)] prod.case sum.case Let_def
      util_wrap_again [OF assms(1)] simp_thms if_False register_forward_hook_def)

lemma wrapped_class_attr:
  assumes M: "Module_cls < length C" "C ! Module_cls = Module_class"
    and ni: "Module_cls \<notin> set ms"
    and len: "n < length C'" and C': "C' ! Module_cls = Module_class" "Module_cls < length C'"
    and W: "mro (C' ! n) = n # remdups (mro Module_class @ ms)" "cls_dict (C' ! n) = Map.empty"
  shows "class_attr C' n ''output'' = Some (PyProperty OutputAccessor)"
    and "class_attr C' n ''input'' = Some (PyProperty InputAccessor)"
proof -
  have rd: "remdups (mro Module_class @ ms) = Module_cls # remdups ([torch_Module_cls, object_cls] @ ms)"
    using ni by (simp add: Module_class_def Module_cls_def torch_Module_cls_def object_cls_def)
  show "class_attr C' n ''output'' = Some (PyProperty OutputAccessor)"
    unfolding class_attr_def W(1) rd using len C' W(2) by (simp add: Module_class_def)
  show "class_attr C' n ''input'' = Some (PyProperty InputAccessor)"
    unfolding class_attr_def W(1) rd using len C' W(2) by (simp add: Module_class_def)
qed

lemma fake_outputs_after_hooks:
  assumes "dfm inp"
  shows "fake_outputs (mstate (foldl (run_forward_hook dfm C inp kw outp) module hs)) =
     fake_outputs (mstate module) @ replicate (length (filter (\<lambda>h. h = CompletionHook) hs)) outp"
proof (induction hs arbitrary: module)
  case Nil
  then show ?case by simp
next
  case (Cons h hs)
  show ?case
  proof (cases h)
    case CompletionHook
    then show ?thesis
      using Cons [of "hook dfm C module inp kw outp"]
      by (simp add: mstate_hook [of dfm inp, OF assms] replicate_app_Cons_same)
  next
    case (ForeignHook x)
    then show ?thesis using Cons [of module] by simp
  qed
qed

lemma wrap_twice_result:
  assumes M: "Module_cls < length (classes w)" "classes w ! Module_cls = Module_class"
    and c: "cls obj < length (classes w)"
    and ni: "\<not> isinstance_Module (classes w) obj"
    and go: "getattr_default w obj ''output'' = Inr (PyNone, w, obj)"
    and gi: "getattr_default w obj ''input'' = Inr (PyNone, w, obj)"
  shows "\<exists>w1 m1.
           wrap w obj = Inr (w1, m1)
           \<and> forward_hooks m1 = forward_hooks obj @ [CompletionHook]
           \<and> fake_outputs m1 = []
           \<and> wrap w1 m1 =
               Inr (w1, m1\<lparr>forward_hooks := forward_hooks obj @ [CompletionHook, CompletionHook]\<rparr>)"
proof -
  let ?n = "length (classes w)"
  let ?ms = "mro (classes w ! cls obj)"
  let ?w1 = "w\<lparr>classes := classes w @
             [\<lparr>cls_name = cls_name (classes w ! cls obj), bases = [Module_cls, cls obj],
               mro = ?n # remdups (mro Module_class @ ?ms), cls_dict = Map.empty\<rparr>]\<rparr>"
  let ?m1 = "(Module_init (obj\<lparr>cls := ?n\<rparr>))\<lparr>forward_hooks := forward_hooks obj @ [CompletionHook]\<rparr>"
  have r1: "wrap w obj = Inr (?w1, ?m1)"
    by (rule wrap_plain_result [OF M c ni go gi])
  have nm: "Module_cls \<notin> set ?ms"
    using ni c by (simp add: isinstance_Module_def)
  have "Module_cls \<in> set (mro Module_class)" by (simp add: Module_class_def)
  then have inst: "isinstance_Module (classes ?w1) ?m1"
    by (simp add: isinstance_Module_def Module_init_def)
  have co: "cls ?m1 = ?n" by (simp add: Module_init_def)
  have a1: "class_attr (classes ?w1) (cls ?m1) ''output'' = Some (PyProperty OutputAccessor)"
    unfolding co
    by (rule wrapped_class_attr(1) [where ms = ?ms, OF M nm]) (use M in \<open>simp_all add: nth_append\<close>)
  have a2: "class_attr (classes ?w1) (cls ?m1) ''input'' = Some (PyProperty InputAccessor)"
    unfolding co
    by (rule wrapped_class_attr(2) [where ms = ?ms, OF M nm]) (use M in \<open>simp_all add: nth_append\<close>)
  have st: "tracer ?m1 = None" "0 \<le> call_iter ?m1" "output_proxy ?m1 = None"
    "input_proxy ?m1 = None"
    by (simp_all add: Module_init_def)
  have r2: "wrap ?w1 ?m1 =
      Inr (?w1, ?m1\<lparr>forward_hooks := forward_hooks obj @ [CompletionHook, CompletionHook]\<rparr>)"
    using wrap_again_result [OF inst st a1 a2] by (simp add: Module_init_def)
  have h: "forward_hooks ?m1 = forward_hooks obj @ [CompletionHook]" "fake_outputs ?m1 = []"
    by (simp_all add: Module_init_def)
  from r1 r2 h show ?thesis by blast
qed

lemma demo_world_Module:
  "Module_cls < length (classes demo_world)" "classes demo_world ! Module_cls = Module_class"
  by (simp_all add: demo_world_def demo_classes_def Module_cls_def)

lemma demo_obj_class:
  "cls (demo_obj\<lparr>attrs := a\<rparr>) < length (classes demo_world)"
  "\<not> isinstance_Module (classes demo_world) (demo_obj\<lparr>attrs := a\<rparr>)"
  "\<forall>x \<in> set (mro (classes demo_world ! cls (demo_obj\<lparr>attrs := a\<rparr>))). x < length (classes demo_world)"
  by (simp_all add: demo_world_def demo_classes_def demo_obj_def isinstance_Module_def
      Module_cls_def)

lemma demo_obj_class_attr: "class_attr (classes demo_world) (cls demo_obj) name = None"
  by (simp add: demo_world_def demo_classes_def demo_obj_def class_attr_def Module_class_def)

lemma demo_obj_getattr:
  "getattr_default demo_world (demo_obj\<lparr>attrs := a\<rparr>) name =
     Inr (case a name of None \<Rightarrow> PyNone | Some v \<Rightarrow> v, demo_world, demo_obj\<lparr>attrs := a\<rparr>)"
  by (simp add: getattr_default_def getattr_obj_def demo_obj_class_attr Let_def
      split: option.splits)

lemma demo_obj_attrs: "demo_obj\<lparr>attrs := Map.empty\<rparr> = demo_obj"
  by (simp add: demo_obj_def)

text \<open>
  C2, as stated, fails: the second call of \<^verbatim>\<open>wrap\<close> on the same module is not a no-op. It
  registers the completion hook a second time, so that in a shape-only run one call of
  the module records two placeholders where a module wrapped once records one.
\<close>

theorem second_wrap_is_not_a_no_op_counterexample:
  "wrap_twice demo_world demo_obj \<noteq> wrap demo_world demo_obj
   \<and> outputs_of_one_call (wrap demo_world demo_obj) (PyObj 5) = [PyObj 5]
   \<and> outputs_of_one_call (wrap_twice demo_world demo_obj) (PyObj 5) = [PyObj 5, PyObj 5]"
proof -
  have go: "getattr_default demo_world demo_obj ''output'' = Inr (PyNone, demo_world, demo_obj)"
    and gi: "getattr_default demo_world demo_obj ''input'' = Inr (PyNone, demo_world, demo_obj)"
    using demo_obj_getattr [of Map.empty] by (simp_all add: demo_obj_attrs)
  have c: "cls demo_obj < length (classes demo_world)"
    and ni: "\<not> isinstance_Module (classes demo_world) demo_obj"
    using demo_obj_class(1,2) [of Map.empty] by (simp_all add: demo_obj_attrs)
  from wrap_twice_result [OF demo_world_Module c ni go gi] obtain w1 m1 where
    r1: "wrap demo_world demo_obj = Inr (w1, m1)"
    and h: "forward_hooks m1 = forward_hooks demo_obj @ [CompletionHook]"
    and e: "fake_outputs m1 = []"
    and r2: "wrap w1 m1 =
       Inr (w1, m1\<lparr>forward_hooks := forward_hooks demo_obj @ [CompletionHook, CompletionHook]\<rparr>)"
    by blast
  have f: "fake_run PyNone" by (simp add: fake_run_def)
  have h0: "forward_hooks demo_obj = []" by (simp add: demo_obj_def)
  have t: "wrap_twice demo_world demo_obj = Inr (w1, m1\<lparr>forward_hooks := [CompletionHook, CompletionHook]\<rparr>)"
    by (simp add: wrap_twice_def r1 r2 h0)
  have "forward_hooks (m1\<lparr>forward_hooks := [CompletionHook, CompletionHook]\<rparr>) \<noteq> forward_hooks m1"
    by (simp add: h h0)
  then have d: "m1\<lparr>forward_hooks := [CompletionHook, CompletionHook]\<rparr> \<noteq> m1"
    by (rule contrapos_nn) (rule arg_cong)
  have o1: "outputs_of_one_call (wrap demo_world demo_obj) (PyObj 5) = [PyObj 5]"
    by (simp add: outputs_of_one_call_def r1 call_completed_def h h0 mstate_hook [of fake_run PyNone, OF f] e)
  have o2: "outputs_of_one_call (wrap_twice demo_world demo_obj) (PyObj 5) = [PyObj 5, PyObj 5]"
    by (simp add: outputs_of_one_call_def t call_completed_def mstate_hook [of fake_run PyNone, OF f] e)
  from t r1 d o1 o2 show ?thesis by simp
qed

text \<open>
  C2, amended: for an object that is not yet wrapped and has no attribute \<^verbatim>\<open>output\<close> or
  \<^verbatim>\<open>input\<close> of its own, the second call of \<^verbatim>\<open>wrap\<close> leaves the classes, the accessors and
  the state of the module as the first call made them, and registers the completion hook
  once more: after two calls the hook is registered twice, and in a shape-only run one
  call of the module records one placeholder for each registration.
\<close>

theorem second_wrap_registers_hook_again:
  assumes M: "Module_cls < length (classes w)" "classes w ! Module_cls = Module_class"
    and c: "cls obj < length (classes w)"
    and ni: "\<not> isinstance_Module (classes w) obj"
    and go: "getattr_default w obj ''output'' = Inr (PyNone, w, obj)"
    and gi: "getattr_default w obj ''input'' = Inr (PyNone, w, obj)"
    and fake: "dfm inp"
  shows "\<exists>w1 m1.
           wrap w obj = Inr (w1, m1)
           \<and> forward_hooks m1 = forward_hooks obj @ [CompletionHook]
           \<and> wrap w1 m1 =
               Inr (w1, m1\<lparr>forward_hooks := forward_hooks obj @ [CompletionHook, CompletionHook]\<rparr>)
           \<and> fake_outputs (mstate (call_completed dfm (classes w1) (MNode m1 ts) inp kw outp))
               = replicate (Suc (length (filter (\<lambda>h. h = CompletionHook) (forward_hooks obj)))) outp
           \<and> fake_outputs (mstate (call_completed dfm (classes w1)
                 (MNode (m1\<lparr>forward_hooks := forward_hooks obj @ [CompletionHook, CompletionHook]\<rparr>) ts)
                 inp kw outp))
               = replicate (Suc (Suc (length (filter (\<lambda>h. h = CompletionHook) (forward_hooks obj)))))
                   outp"
proof -
  from wrap_twice_result [OF M c ni go gi] obtain w1 m1 where
    r1: "wrap w obj = Inr (w1, m1)" and h: "forward_hooks m1 = forward_hooks obj @ [CompletionHook]"
    and e: "fake_outputs m1 = []"
    and r2: "wrap w1 m1 =
       Inr (w1, m1\<lparr>forward_hooks := forward_hooks obj @ [CompletionHook, CompletionHook]\<rparr>)"
    by blast
  have c1: "fake_outputs (mstate (call_completed dfm (classes w1) (MNode m1 ts) inp kw outp))
      = replicate (Suc (length (filter (\<lambda>h. h = CompletionHook) (forward_hooks obj)))) outp"
    unfolding call_completed_def mtree.sel h fake_outputs_after_hooks [of dfm inp, OF fake]
    by (simp add: e)
  have fh: "forward_hooks (m1\<lparr>forward_hooks := forward_hooks obj @ [CompletionHook, CompletionHook]\<rparr>)
      = forward_hooks obj @ [CompletionHook, CompletionHook]"
    by simp
  have c2: "fake_outputs (mstate (call_completed dfm (classes w1)
        (MNode (m1\<lparr>forward_hooks := forward_hooks obj @ [CompletionHook, CompletionHook]\<rparr>) ts)
        inp kw outp))
      = replicate (Suc (Suc (length (filter (\<lambda>h. h = CompletionHook) (forward_hooks obj))))) outp"
    unfolding call_completed_def mtree.sel fh fake_outputs_after_hooks [of dfm inp, OF fake]
    by (simp add: e)
  from r1 h r2 c1 c2 show ?thesis by blast
qed

theorem second_wrap_registers_hook_again_witness:
  "Module_cls < length (classes demo_world) \<and> cls demo_obj < length (classes demo_world)
   \<and> \<not> isinstance_Module (classes demo_world) demo_obj \<and> fake_run PyNone
   \<and> (\<exists>w1 m1. wrap demo_world demo_obj = Inr (w1, m1)
         \<and> wrap w1 m1 = Inr (w1, m1\<lparr>forward_hooks := [CompletionHook, CompletionHook]\<rparr>)
         \<and> fake_outputs (mstate (call_completed fake_run (classes w1)
               (MNode (m1\<lparr>forward_hooks := [CompletionHook, CompletionHook]\<rparr>) [])
               PyNone PyNone (PyObj 5))) = [PyObj 5, PyObj 5])"
proof -
  have go: "getattr_default demo_world demo_obj ''output'' = Inr (PyNone, demo_world, demo_obj)"
    and gi: "getattr_default demo_world demo_obj ''input'' = Inr (PyNone, demo_world, demo_obj)"
    using demo_obj_getattr [of Map.empty] by (simp_all add: demo_obj_attrs)
  have c: "cls demo_obj < length (classes demo_world)"
    and ni: "\<not> isinstance_Module (classes demo_world) demo_obj"
    using demo_obj_class(1,2) [of Map.empty] by (simp_all add: demo_obj_attrs)
  have f: "fake_run PyNone" by (simp add: fake_run_def)
  have h0: "forward_hooks demo_obj = []" by (simp add: demo_obj_def)
  note r = second_wrap_registers_hook_again [OF demo_world_Module c ni go gi, of fake_run PyNone,
      OF f, of "[]" PyNone "PyObj 5"]
  from r have "\<exists>w1 m1. wrap demo_world demo_obj = Inr (w1, m1)
         \<and> wrap w1 m1 = Inr (w1, m1\<lparr>forward_hooks := [CompletionHook, CompletionHook]\<rparr>)
         \<and> fake_outputs (mstate (call_completed fake_run (classes w1)
               (MNode (m1\<lparr>forward_hooks := [CompletionHook, CompletionHook]\<rparr>) [])
               PyNone PyNone (PyObj 5))) = [PyObj 5, PyObj 5]"
    by (simp add: h0) blast
  with demo_world_Module(1) c ni f show ?thesis by blast
qed

text \<open>
  C9, as stated, fails: an object whose pre-existing attribute \<^verbatim>\<open>output\<close> has the value
  \<^verbatim>\<open>None\<close> gets no warning and no accessor at \<^verbatim>\<open>nns_output\<close>; the accessor is mounted at
  \<^verbatim>\<open>output\<close>, in front of the attribute.
\<close>

theorem none_valued_attribute_counterexample:
  "attrs (demo_obj\<lparr>attrs := [''output'' \<mapsto> PyNone]\<rparr>) ''output'' = Some PyNone
   \<and> \<not> isl (wrap demo_world (demo_obj\<lparr>attrs := [''output'' \<mapsto> PyNone]\<rparr>))
   \<and> warnings (fst (projr (wrap demo_world (demo_obj\<lparr>attrs := [''output'' \<mapsto> PyNone]\<rparr>)))) = []
   \<and> class_attr
        (classes (fst (projr (wrap demo_world (demo_obj\<lparr>attrs := [''output'' \<mapsto> PyNone]\<rparr>)))))
        (cls (snd (projr (wrap demo_world (demo_obj\<lparr>attrs := [''output'' \<mapsto> PyNone]\<rparr>)))))
        ''nns_output'' = None
   \<and> class_attr
        (classes (fst (projr (wrap demo_world (demo_obj\<lparr>attrs := [''output'' \<mapsto> PyNone]\<rparr>)))))
        (cls (snd (projr (wrap demo_world (demo_obj\<lparr>attrs := [''output'' \<mapsto> PyNone]\<rparr>)))))
        ''output'' = Some (PyProperty OutputAccessor)"
proof -
  let ?o = "demo_obj\<lparr>attrs := [''output'' \<mapsto> PyNone]\<rparr>"
  have go: "getattr_default demo_world ?o ''output'' = Inr (PyNone, demo_world, ?o)"
    and gi: "getattr_default demo_world ?o ''input'' = Inr (PyNone, demo_world, ?o)"
    by (simp_all add: demo_obj_getattr)
  note r = wrap_plain_result [OF demo_world_Module demo_obj_class(1,2) go gi]
  show ?thesis
    unfolding r
    by (simp add: demo_world_def demo_classes_def demo_obj_def class_attr_def Module_init_def
        Module_class_def Module_cls_def torch_Module_cls_def object_cls_def)
qed

text \<open>
  C9, amended: for every object that is not yet wrapped and whose attribute \<^verbatim>\<open>output\<close> or
  \<^verbatim>\<open>input\<close>, as \<^verbatim>\<open>wrap\<close> reads it with \<^verbatim>\<open>getattr(module, name, None)\<close>, is an ordinary value
  other than \<^verbatim>\<open>None\<close>, \<^verbatim>\<open>wrap\<close> does not fail. It emits one warning, which names the original
  class; reading \<^verbatim>\<open>output\<close> and \<^verbatim>\<open>input\<close> of the wrapped object yields the values read before
  wrapping; the accessors are mounted at \<^verbatim>\<open>nns_output\<close> and \<^verbatim>\<open>nns_input\<close>; and every class
  that existed before, class \<^verbatim>\<open>Module\<close> among them, is as it was, so the attributes of
  every other object resolve as before.
\<close>

theorem wrap_preserves_predefined_attributes:
  assumes M: "Module_cls < length (classes w)" "classes w ! Module_cls = Module_class"
    and c: "cls obj < length (classes w)"
    and r: "\<forall>x \<in> set (mro (classes w ! cls obj)). x < length (classes w)"
    and ni: "\<not> isinstance_Module (classes w) obj"
    and np: "\<forall>a. class_attr (classes w) (cls obj) ''output'' \<noteq> Some (PyProperty a)"
            "\<forall>a. class_attr (classes w) (cls obj) ''input'' \<noteq> Some (PyProperty a)"
    and go: "getattr_default w obj ''output'' = Inr (oo, w, obj)"
    and gi: "getattr_default w obj ''input'' = Inr (oi, w, obj)"
    and ord: "\<forall>a. oo \<noteq> PyProperty a" "\<forall>a. oi \<noteq> PyProperty a"
    and ne: "oo \<noteq> PyNone \<or> oi \<noteq> PyNone"
  shows "\<exists>w' obj'.
           wrap w obj = Inr (w', obj')
           \<and> warnings w' = warnings w @ [preserved_warning (cls_name (classes w ! cls obj))]
           \<and> getattr_obj w' obj' ''output'' = Inr (oo, w', obj')
           \<and> getattr_obj w' obj' ''input'' = Inr (oi, w', obj')
           \<and> class_attr (classes w') (cls obj') ''nns_output'' = Some (PyProperty OutputAccessor)
           \<and> class_attr (classes w') (cls obj') ''nns_input'' = Some (PyProperty InputAccessor)
           \<and> isinstance_Module (classes w') obj'
           \<and> take (length (classes w)) (classes w') = classes w
           \<and> (\<forall>c name. c < length (classes w)
                  \<and> (\<forall>x \<in> set (mro (classes w ! c)). x < length (classes w))
                \<longrightarrow> class_attr (classes w') c name = class_attr (classes w) c name)"
proof -
  let ?n = "length (classes w)"
  let ?ms = "mro (classes w ! cls obj)"
  let ?D = "[\<lparr>cls_name = cls_name (classes w ! cls obj), bases = [Module_cls, cls obj],
               mro = ?n # remdups (mro Module_class @ ?ms), cls_dict = Map.empty\<rparr>,
              \<lparr>cls_name = ''Module.Preserved'', bases = [Module_cls],
               mro = Suc ?n # mro Module_class,
               cls_dict = [''nns_output'' \<mapsto> PyProperty OutputAccessor, ''output'' \<mapsto> oo,
                           ''nns_input'' \<mapsto> PyProperty InputAccessor, ''input'' \<mapsto> oi]\<rparr>,
              \<lparr>cls_name = cls_name (classes w ! cls obj) @ ''.Preserved'',
               bases = [Suc ?n, cls obj],
               mro = Suc (Suc ?n) # remdups (Suc ?n # mro Module_class @ ?ms),
               cls_dict = Map.empty\<rparr>]"
  let ?w' = "w\<lparr>classes := classes w @ ?D,
               warnings := warnings w @ [preserved_warning (cls_name (classes w ! cls obj))]\<rparr>"
  let ?obj' = "(Module_init (obj\<lparr>cls := Suc (Suc ?n)\<rparr>))
                 \<lparr>forward_hooks := forward_hooks obj @ [CompletionHook]\<rparr>"
  have res: "wrap w obj = Inr (?w', ?obj')"
    by (rule wrap_preserved_result [OF M c ni go gi ne])
  have cl: "classes ?w' = classes w @ ?D" by simp
  have co: "cls ?obj' = Suc (Suc ?n)" by (simp add: Module_init_def)
  have at: "attrs ?obj' = attrs obj" by (simp add: Module_init_def)
  have ca: "class_attr (classes ?w') (cls ?obj') name = Some v"
    if "[''nns_output'' \<mapsto> PyProperty OutputAccessor, ''output'' \<mapsto> oo,
         ''nns_input'' \<mapsto> PyProperty InputAccessor, ''input'' \<mapsto> oi] name = Some v"
    for name v
    unfolding cl co
    by (rule preserved_class_attr [where ms = ?ms, OF M(1) r]) (use that in \<open>simp_all add: nth_append\<close>)
  have w1: "warnings ?w' = warnings w @ [preserved_warning (cls_name (classes w ! cls obj))]"
    by simp
  have g1: "getattr_obj ?w' ?obj' ''output'' = Inr (oo, ?w', ?obj')"
  proof (rule getattr_obj_plain)
    show "class_attr (classes ?w') (cls ?obj') ''output'' = Some oo" by (rule ca) simp
    show "\<forall>a. oo \<noteq> PyProperty a" by (rule ord(1))
    show "u = oo" if "attrs ?obj' ''output'' = Some u" for u
      using own_attr_value [OF np(1) go] that at by simp
  qed
  have g2: "getattr_obj ?w' ?obj' ''input'' = Inr (oi, ?w', ?obj')"
  proof (rule getattr_obj_plain)
    show "class_attr (classes ?w') (cls ?obj') ''input'' = Some oi" by (rule ca) simp
    show "\<forall>a. oi \<noteq> PyProperty a" by (rule ord(2))
    show "u = oi" if "attrs ?obj' ''input'' = Some u" for u
      using own_attr_value [OF np(2) gi] that at by simp
  qed
  have n1: "class_attr (classes ?w') (cls ?obj') ''nns_output'' = Some (PyProperty OutputAccessor)"
    by (rule ca) simp
  have n2: "class_attr (classes ?w') (cls ?obj') ''nns_input'' = Some (PyProperty InputAccessor)"
    by (rule ca) simp
  have "Module_cls \<in> set (mro Module_class)" by (simp add: Module_class_def)
  then have inst: "isinstance_Module (classes ?w') ?obj'"
    unfolding isinstance_Module_def cl co by (simp add: nth_append)
  have tk: "take ?n (classes ?w') = classes w" by simp
  have oth: "\<forall>c name. c < ?n \<and> (\<forall>x \<in> set (mro (classes w ! c)). x < ?n)
                \<longrightarrow> class_attr (classes ?w') c name = class_attr (classes w) c name"
    unfolding cl by (simp add: class_attr_append)
  from res w1 g1 g2 n1 n2 inst tk oth show ?thesis by blast
qed

theorem wrap_preserves_predefined_attributes_witness:
  "Module_cls < length (classes demo_world)
   \<and> \<not> isinstance_Module (classes demo_world) (demo_obj\<lparr>attrs := [''output'' \<mapsto> PyObj 7]\<rparr>)
   \<and> getattr_default demo_world (demo_obj\<lparr>attrs := [''output'' \<mapsto> PyObj 7]\<rparr>) ''output''
       = Inr (PyObj 7, demo_world, demo_obj\<lparr>attrs := [''output'' \<mapsto> PyObj 7]\<rparr>)
   \<and> PyObj 7 \<noteq> PyNone
   \<and> (\<exists>w' obj'.
         wrap demo_world (demo_obj\<lparr>attrs := [''output'' \<mapsto> PyObj 7]\<rparr>) = Inr (w', obj')
         \<and> warnings w' = [preserved_warning ''Linear'']
         \<and> getattr_obj w' obj' ''output'' = Inr (PyObj 7, w', obj')
         \<and> getattr_obj w' obj' ''input'' = Inr (PyNone, w', obj')
         \<and> class_attr (classes w') (cls obj') ''nns_output'' = Some (PyProperty OutputAccessor)
         \<and> class_attr (classes w') (cls obj') ''nns_input'' = Some (PyProperty InputAccessor)
         \<and> take 4 (classes w') = demo_classes
         \<and> class_attr (classes w') Module_cls ''output'' = Some (PyProperty OutputAccessor))"
proof -
  let ?o = "demo_obj\<lparr>attrs := [''output'' \<mapsto> PyObj 7]\<rparr>"
  have go: "getattr_default demo_world ?o ''output'' = Inr (PyObj 7, demo_world, ?o)"
    and gi: "getattr_default demo_world ?o ''input'' = Inr (PyNone, demo_world, ?o)"
    by (simp_all add: demo_obj_getattr)
  have np: "\<forall>a. class_attr (classes demo_world) (cls ?o) ''output'' \<noteq> Some (PyProperty a)"
    "\<forall>a. class_attr (classes demo_world) (cls ?o) ''input'' \<noteq> Some (PyProperty a)"
    by (simp_all add: demo_obj_class_attr)
  have ord: "\<forall>a. PyObj 7 \<noteq> PyProperty a" "\<forall>a. PyNone \<noteq> PyProperty a" by simp_all
  have ne: "PyObj 7 \<noteq> PyNone \<or> PyNone \<noteq> PyNone" by simp
  note r = wrap_preserves_predefined_attributes [OF demo_world_Module demo_obj_class(1)
      demo_obj_class(3) demo_obj_class(2) np go gi ord ne]
  have nm: "cls_name (classes demo_world ! cls ?o) = ''Linear''"
    by (simp add: demo_world_def demo_classes_def demo_obj_def)
  have ln: "length (classes demo_world) = 4" "classes demo_world = demo_classes"
    by (simp_all add: demo_world_def demo_classes_def)
  have mc: "Module_cls < length (classes demo_world)
      \<and> (\<forall>x \<in> set (mro (classes demo_world ! Module_cls)). x < length (classes demo_world))"
    by (simp add: demo_world_def demo_classes_def Module_cls_def Module_class_def
        torch_Module_cls_def object_cls_def)
  have ma: "class_attr (classes demo_world) Module_cls ''output'' = Some (PyProperty OutputAccessor)"
    by (simp add: demo_world_def demo_classes_def Module_cls_def Module_class_def class_attr_def)
  from r obtain w' obj' where
    a: "wrap demo_world ?o = Inr (w', obj')"
    and b: "warnings w' = warnings demo_world @ [preserved_warning (cls_name (classes demo_world ! cls ?o))]"
    and c: "getattr_obj w' obj' ''output'' = Inr (PyObj 7, w', obj')"
      "getattr_obj w' obj' ''input'' = Inr (PyNone, w', obj')"
      "class_attr (classes w') (cls obj') ''nns_output'' = Some (PyProperty OutputAccessor)"
      "class_attr (classes w') (cls obj') ''nns_input'' = Some (PyProperty InputAccessor)"
    and d: "take (length (classes demo_world)) (classes w') = classes demo_world"
    and e: "\<forall>c name. c < length (classes demo_world)
                  \<and> (\<forall>x \<in> set (mro (classes demo_world ! c)). x < length (classes demo_world))
                \<longrightarrow> class_attr (classes w') c name = class_attr (classes demo_world) c name"
    by blast
  from b have b': "warnings w' = [preserved_warning ''Linear'']"
    by (simp add: demo_world_def demo_classes_def demo_obj_def)
  have l4: "length demo_classes = 4" by (simp add: demo_classes_def)
  from d have d': "take 4 (classes w') = demo_classes" by (simp add: ln(2) l4)
  from e mc ma have e': "class_attr (classes w') Module_cls ''output'' = Some (PyProperty OutputAccessor)"
    by metis
  from a b' c d' e' have "\<exists>w' obj'.
         wrap demo_world ?o = Inr (w', obj')
         \<and> warnings w' = [preserved_warning ''Linear'']
         \<and> getattr_obj w' obj' ''output'' = Inr (PyObj 7, w', obj')
         \<and> getattr_obj w' obj' ''input'' = Inr (PyNone, w', obj')
         \<and> class_attr (classes w') (cls obj') ''nns_output'' = Some (PyProperty OutputAccessor)
         \<and> class_attr (classes w') (cls obj') ''nns_input'' = Some (PyProperty InputAccessor)
         \<and> take 4 (classes w') = demo_classes
         \<and> class_attr (classes w') Module_cls ''output'' = Some (PyProperty OutputAccessor)"
    by blast
  with demo_world_Module(1) demo_obj_class(2) go show ?thesis by simp
qed


subsection \<open>Assignment on a module with preserved attributes\<close>




end
